theory Spec2Isabelle
  imports Complex_Main
begin

section \<open>Python values\<close>

text \<open>
  A Python \<open>str\<close> is a sequence of code points, and \<open>len\<close> counts code points; it is
  modelled as a list of natural numbers. \<open>lit\<close> injects an ASCII literal of the source.
\<close>

type_synonym pystr = "nat list"

definition lit :: "string \<Rightarrow> pystr" where
  "lit s = map of_char s"

definition NL :: nat where
  "NL = 10"

definition SP :: nat where
  "SP = 32"

text \<open>\<open>str(n)\<close> for a non-negative integer, and for any integer.\<close>

fun str_nat :: "nat \<Rightarrow> pystr" where
  "str_nat n = (if n < 10 then [48 + n] else str_nat (n div 10) @ [48 + n mod 10])"

declare str_nat.simps [simp del]

definition str_int :: "int \<Rightarrow> pystr" where
  "str_int i = (if i < 0 then 45 # str_nat (nat (- i)) else str_nat (nat i))"

text \<open>
  A decimal field of fixed width, zero padded, as \<open>strftime\<close> and \<open>isoformat\<close> print the
  fields of a date (every field of a valid date fits its width).
\<close>

fun zpad :: "nat \<Rightarrow> nat \<Rightarrow> pystr" where
  "zpad 0 n = []"
| "zpad (Suc k) n = zpad k (n div 10) @ [48 + n mod 10]"

text \<open>\<open>str.isspace\<close> on one code point, and \<open>str.strip()\<close>.\<close>

definition is_space :: "nat \<Rightarrow> bool" where
  "is_space c \<longleftrightarrow>
     (9 \<le> c \<and> c \<le> 13) \<or> (28 \<le> c \<and> c \<le> 32) \<or> c = 133 \<or> c = 160 \<or> c = 5760
     \<or> (8192 \<le> c \<and> c \<le> 8202) \<or> c = 8232 \<or> c = 8233 \<or> c = 8239 \<or> c = 8287 \<or> c = 12288"

definition strip :: "pystr \<Rightarrow> pystr" where
  "strip s = rev (dropWhile is_space (rev (dropWhile is_space s)))"

subsection \<open>datetime\<close>

record datetime =
  year :: nat
  month :: nat
  day :: nat
  hour :: nat
  minute :: nat
  second :: nat
  microsecond :: nat

text \<open>The values \<open>datetime.now()\<close> returns (years of four digits).\<close>

definition valid_datetime :: "datetime \<Rightarrow> bool" where
  "valid_datetime d \<longleftrightarrow>
     1000 \<le> year d \<and> year d \<le> 9999 \<and> 1 \<le> month d \<and> month d \<le> 12 \<and> 1 \<le> day d \<and> day d \<le> 31
     \<and> hour d < 24 \<and> minute d < 60 \<and> second d < 60 \<and> microsecond d < 1000000"

text \<open>\<open>strftime('%Y%m%d_%H%M%S')\<close>, the stamp of an output file's name.\<close>

definition strftime_seconds :: "datetime \<Rightarrow> pystr" where
  "strftime_seconds d =
     zpad 4 (year d) @ zpad 2 (month d) @ zpad 2 (day d) @ lit ''_''
     @ zpad 2 (hour d) @ zpad 2 (minute d) @ zpad 2 (second d)"

text \<open>\<open>strftime('%Y%m%d_%H%M%S_%f')\<close>, the stamp of a task identifier.\<close>

definition strftime_micro :: "datetime \<Rightarrow> pystr" where
  "strftime_micro d = strftime_seconds d @ lit ''_'' @ zpad 6 (microsecond d)"

text \<open>\<open>isoformat()\<close>: the microseconds are left out when they are zero.\<close>

definition isoformat :: "datetime \<Rightarrow> pystr" where
  "isoformat d =
     zpad 4 (year d) @ lit ''-'' @ zpad 2 (month d) @ lit ''-'' @ zpad 2 (day d) @ lit ''T''
     @ zpad 2 (hour d) @ lit '':'' @ zpad 2 (minute d) @ lit '':'' @ zpad 2 (second d)
     @ (if microsecond d = 0 then [] else lit ''.'' @ zpad 6 (microsecond d))"

subsection \<open>os.path and pathlib\<close>

definition SLASH :: nat where
  "SLASH = 47"

definition DOT :: nat where
  "DOT = 46"

text \<open>\<open>os.path.basename(p)\<close>: what follows the last slash.\<close>

definition basename :: "pystr \<Rightarrow> pystr" where
  "basename p = rev (takeWhile (\<lambda>c. c \<noteq> SLASH) (rev p))"

text \<open>
  \<open>os.path.splitext(p)\<close>: the extension starts at the last dot of the last component,
  unless only dots stand before it there.
\<close>

definition splitext :: "pystr \<Rightarrow> pystr \<times> pystr" where
  "splitext p =
     (let b = basename p;
          e = takeWhile (\<lambda>c. c \<noteq> DOT) (rev b);
          stem = take (length b - length e - 1) b
      in if DOT \<in> set b \<and> (\<exists>c \<in> set stem. c \<noteq> DOT)
         then (take (length p - length e - 1) p, drop (length p - length e - 1) p)
         else (p, []))"

text \<open>
  \<open>Path(name).suffix\<close> and \<open>Path(name).stem\<close> for a path: the last component is split at
  its last dot when that dot is neither its first nor its last character.
\<close>

definition path_suffix :: "pystr \<Rightarrow> pystr" where
  "path_suffix p =
     (let b = basename p; e = takeWhile (\<lambda>c. c \<noteq> DOT) (rev b); i = length b - length e - 1
      in if DOT \<in> set b \<and> 0 < i \<and> i < length b - 1 then drop i b else [])"

definition path_stem :: "pystr \<Rightarrow> pystr" where
  "path_stem p =
     (let b = basename p; e = takeWhile (\<lambda>c. c \<noteq> DOT) (rev b); i = length b - length e - 1
      in if DOT \<in> set b \<and> 0 < i \<and> i < length b - 1 then take i b else b)"

text \<open>\<open>os.path.join(a, b)\<close> on POSIX.\<close>

definition path_join :: "pystr \<Rightarrow> pystr \<Rightarrow> pystr" where
  "path_join a b =
     (if b \<noteq> [] \<and> hd b = SLASH then b
      else if a = [] \<or> last a = SLASH then a @ b
      else a @ [SLASH] @ b)"

section \<open>Exceptions\<close>

text \<open>
  Every \<open>raise\<close> of the source and every failure of a library call is a value;
  \<open>ExternalError\<close> stands for what a library raises (the decoder, the speech model, a
  provider's client, the operating system), with its message.
\<close>

datatype exn =
    FileNotFoundError pystr
  | ValueError pystr
  | KeyError pystr
  | HTTPException nat pystr
  | ExternalError pystr

text \<open>\<open>str(e)\<close>.\<close>

definition str_exn :: "exn \<Rightarrow> pystr" where
  "str_exn e =
     (case e of
        FileNotFoundError m \<Rightarrow> m
      | ValueError m \<Rightarrow> m
      | KeyError k \<Rightarrow> [39] @ k @ [39]
      | HTTPException c m \<Rightarrow> str_nat c @ lit '': '' @ m
      | ExternalError m \<Rightarrow> m)"

section \<open>config.py\<close>

record config =
  VIDEO_INPUT_FOLDER :: pystr
  VIDEO_OUTPUT_FOLDER :: pystr
  AI_PROVIDER :: pystr
  OPENAI_MODEL :: pystr
  ANTHROPIC_MODEL :: pystr
  GOOGLE_API_KEY :: "pystr option"
  GOOGLE_MODEL :: pystr
  TRANSCRIPTION_MODEL :: pystr
  MAX_VIDEO_SIZE_MB :: int
  SUPPORTED_FORMATS :: "pystr list"

section \<open>Data\<close>

text \<open>What the decoder reads from a container (\<open>VideoFileClip\<close>).\<close>

record clip =
  clip_duration :: real
  clip_fps :: real
  clip_size :: "nat \<times> nat"
  clip_has_audio :: bool

text \<open>The dictionary \<open>get_video_info\<close> returns (\<open>size_wh\<close> is its key \<open>size\<close>).\<close>

record video_info =
  duration :: real
  fps :: real
  size_wh :: "nat \<times> nat"
  format :: pystr
  size_mb :: real
  has_audio :: bool

text \<open>The dictionary \<open>process_video\<close> returns (key \<open>k\<close> is field \<open>res_k\<close>).\<close>

record result =
  res_video_path :: pystr
  res_video_info :: video_info
  res_transcript :: pystr
  res_summary :: pystr
  res_processed_at :: pystr
  res_ai_provider :: pystr
  res_transcription_model :: pystr

text \<open>
  The prompts sent to a provider, by what the source interpolates into its fixed text:
  the single prompt of the OpenAI and Anthropic agents, the Google agent's prompt for part
  \<open>i\<close> of \<open>n\<close>, its combining prompt over the parts' summaries, and the constructor's
  availability test.
\<close>

datatype prompt =
    SummaryPrompt video_info pystr
  | ChunkPrompt nat nat video_info pystr
  | FinalPrompt "pystr list"
  | TestPrompt

datatype status = Processing | Completed | Error

text \<open>
  An entry of \<open>processing_tasks\<close>; the source writes the three statuses as the strings
  \<open>processing\<close>, \<open>completed\<close> and \<open>error\<close>.
\<close>

record task =
  task_status :: status
  task_results :: "result list"
  task_errors :: "pystr list"
  started_at :: pystr
  completed_at :: "pystr option"

text \<open>The body of a callback (\<open>send_callback\<close>).\<close>

record payload =
  cb_task_id :: pystr
  cb_status :: status
  cb_results :: "result list"
  cb_errors :: "pystr list"
  cb_timestamp :: pystr

text \<open>A background task scheduled with \<open>add_task\<close>: the task id, the path, the callback.\<close>

datatype job =
    VideoTask pystr pystr "pystr option"
  | FolderTask pystr pystr "pystr option"

text \<open>The calls the pipeline makes to its collaborators, logged in order.\<close>

datatype call =
    PathExists pystr
  | GetVideoInfo pystr
  | ExtractAudio pystr
  | TranscribeAudio pystr
  | GenerateSummary
  | GenerateContent pystr prompt
  | SaveResult pystr
  | Remove pystr
  | Post pystr payload

text \<open>A regular file: a video or audio file, or a summary file with its text.\<close>

datatype content = Media | Summary pystr

section \<open>The world and the process state\<close>

text \<open>
  What the program cannot decide by itself is a parameter: the clock (\<open>clock w k\<close> is the
  \<open>k\<close>-th reading of \<open>datetime.now()\<close>), Python's case mappings and float formatting,
  and the outcome of every call to the decoder, the file system, the speech model and
  the providers.
\<close>

record world =
  clock :: "nat \<Rightarrow> datetime"
  str_lower :: "pystr \<Rightarrow> pystr"
  str_upper :: "pystr \<Rightarrow> pystr"
  format_2f :: "real \<Rightarrow> pystr"
  str_float :: "real \<Rightarrow> pystr"
  tempdir :: pystr
  is_dir :: "pystr \<Rightarrow> bool"
  listdir :: "pystr \<Rightarrow> exn + pystr list"
  getsize :: "pystr \<Rightarrow> exn + nat"
  video_file_clip :: "pystr \<Rightarrow> exn + clip"
  write_audiofile :: "pystr \<Rightarrow> pystr \<Rightarrow> exn option"
  remove_error :: "pystr \<Rightarrow> exn option"
  open_error :: "pystr \<Rightarrow> exn option"
  load_model :: "exn option"
  whisper_transcribe :: "pystr \<Rightarrow> exn + pystr"
  client_error :: "pystr \<Rightarrow> exn option"
  remote_transcribe :: "pystr \<Rightarrow> pystr \<Rightarrow> exn + pystr"
  generate_content :: "pystr \<Rightarrow> prompt \<Rightarrow> exn + pystr"
  import_aiohttp :: "exn option"

text \<open>
  The mutable state: the clock readings taken so far, the regular files on disk, the
  decoders that are open (by video path), the log of calls, the task registry
  \<open>processing_tasks\<close> and the background tasks scheduled and not yet run.
\<close>

record state =
  ticks :: nat
  files :: "pystr \<rightharpoonup> content"
  open_clips :: "pystr list"
  calls :: "call list"
  processing_tasks :: "pystr \<rightharpoonup> task"
  background_tasks :: "job list"

definition now :: "world \<Rightarrow> state \<Rightarrow> datetime \<times> state" where
  "now w s = (clock w (ticks s), s\<lparr>ticks := Suc (ticks s)\<rparr>)"

definition record_call :: "call \<Rightarrow> state \<Rightarrow> state" where
  "record_call c s = s\<lparr>calls := calls s @ [c]\<rparr>"

text \<open>\<open>os.path.exists\<close> and \<open>os.path.isfile\<close>.\<close>

definition path_exists :: "world \<Rightarrow> state \<Rightarrow> pystr \<Rightarrow> bool" where
  "path_exists w s p \<longleftrightarrow> files s p \<noteq> None \<or> is_dir w p"

definition isfile :: "state \<Rightarrow> pystr \<Rightarrow> bool" where
  "isfile s p \<longleftrightarrow> files s p \<noteq> None"

section \<open>audio\_processor.py\<close>

record audio_processor =
  whisper_model :: bool

text \<open>\<open>AudioProcessor()\<close>: loading the speech model may raise.\<close>

definition AudioProcessor_init :: "world \<Rightarrow> exn + audio_processor" where
  "AudioProcessor_init w =
     (case load_model w of Some e \<Rightarrow> Inl e | None \<Rightarrow> Inr \<lparr>whisper_model = True\<rparr>)"

text \<open>\<open>VideoFileClip(video_path)\<close> acquires a decoder; \<open>video.close()\<close> releases it.\<close>

definition open_clip :: "world \<Rightarrow> pystr \<Rightarrow> state \<Rightarrow> (exn + clip) \<times> state" where
  "open_clip w video_path s =
     (case video_file_clip w video_path of
        Inl e \<Rightarrow> (Inl e, s)
      | Inr video \<Rightarrow> (Inr video, s\<lparr>open_clips := open_clips s @ [video_path]\<rparr>))"

definition close_clip :: "pystr \<Rightarrow> state \<Rightarrow> state" where
  "close_clip video_path s = s\<lparr>open_clips := remove1 video_path (open_clips s)\<rparr>"

text \<open>
  \<open>extract_audio_from_video(video_path)\<close>, with the default output path. The two
  \<open>close()\<close> calls stand after the write, on the normal path only.
\<close>

definition audio_output_path :: "world \<Rightarrow> pystr \<Rightarrow> pystr" where
  "audio_output_path w video_path =
     path_join (tempdir w) (fst (splitext (basename video_path)) @ lit ''_audio.wav'')"

definition extract_audio_from_video :: "world \<Rightarrow> pystr \<Rightarrow> state \<Rightarrow> (exn + pystr) \<times> state" where
  "extract_audio_from_video w video_path s0 =
     (let output_path = audio_output_path w video_path;
          s = record_call (ExtractAudio video_path) s0
      in case open_clip w video_path s of
           (Inl e, s1) \<Rightarrow> (Inl e, s1)
         | (Inr video, s1) \<Rightarrow>
             if \<not> clip_has_audio video
             then (Inl (ValueError (lit ''El video no contiene audio'')), s1)
             else (case write_audiofile w video_path output_path of
                     Some e \<Rightarrow> (Inl e, s1)
                   | None \<Rightarrow>
                       (Inr output_path,
                        close_clip video_path (s1\<lparr>files := (files s1)(output_path \<mapsto> Media)\<rparr>))))"

text \<open>\<open>transcribe_with_whisper(audio_path)\<close>.\<close>

definition transcribe_with_whisper ::
  "world \<Rightarrow> audio_processor \<Rightarrow> pystr \<Rightarrow> exn + pystr" where
  "transcribe_with_whisper w ap audio_path =
     (if \<not> whisper_model ap
      then Inl (ValueError (lit ''Modelo Whisper no est'' @ [225] @ lit '' cargado''))
      else whisper_transcribe w audio_path)"

text \<open>\<open>get_video_info(video_path)\<close>; the decoder is closed once the dictionary is built.\<close>

definition get_video_info :: "world \<Rightarrow> pystr \<Rightarrow> state \<Rightarrow> (exn + video_info) \<times> state" where
  "get_video_info w video_path s0 =
     (let s = record_call (GetVideoInfo video_path) s0
      in case open_clip w video_path s of
           (Inl e, s1) \<Rightarrow> (Inl e, s1)
         | (Inr video, s1) \<Rightarrow>
             (case getsize w video_path of
                Inl e \<Rightarrow> (Inl e, s1)
              | Inr bytes \<Rightarrow>
                  (Inr \<lparr>duration = clip_duration video, fps = clip_fps video,
                        size_wh = clip_size video,
                        format = drop 1 (snd (splitext video_path)),
                        size_mb = real bytes / (1024 * 1024),
                        has_audio = clip_has_audio video\<rparr>,
                   close_clip video_path s1)))"

text \<open>
  \<open>cleanup_temp_files(file_paths)\<close>: a file that exists is removed; a failure of
  \<open>os.remove\<close> is caught and logged as a warning, and the loop goes on.
\<close>

definition remove_temp_file :: "world \<Rightarrow> pystr \<Rightarrow> state \<Rightarrow> state" where
  "remove_temp_file w file_path s =
     (if path_exists w s file_path
      then (let s1 = record_call (Remove file_path) s
            in case remove_error w file_path of
                 None \<Rightarrow> s1\<lparr>files := (files s1)(file_path := None)\<rparr>
               | Some e \<Rightarrow> s1)
      else s)"

fun cleanup_temp_files :: "world \<Rightarrow> pystr list \<Rightarrow> state \<Rightarrow> state" where
  "cleanup_temp_files w [] s = s"
| "cleanup_temp_files w (file_path # rest) s =
     cleanup_temp_files w rest (remove_temp_file w file_path s)"

section \<open>ai\_agents.py\<close>

text \<open>An agent, with the identifier of the model it calls.\<close>

datatype ai_agent = OpenAIAgent pystr | AnthropicAgent pystr | GoogleAIAgent pystr

text \<open>
  \<open>OpenAIAgent.generate_summary\<close> and \<open>AnthropicAgent.generate_summary\<close>: one call with
  the whole transcript; the answer is stripped.
\<close>

definition single_call_summary ::
  "world \<Rightarrow> pystr \<Rightarrow> pystr \<Rightarrow> video_info \<Rightarrow> state \<Rightarrow> (exn + pystr) \<times> state" where
  "single_call_summary w model transcript info s =
     (let p = SummaryPrompt info transcript;
          s1 = record_call (GenerateContent model p) s
      in case generate_content w model p of
           Inl e \<Rightarrow> (Inl e, s1)
         | Inr answer \<Rightarrow> (Inr (strip answer), s1))"

text \<open>
  \<open>GoogleAIAgent.generate_summary\<close>. The transcript is cut at every
  \<open>max_chunk_length\<close> characters when it is longer than that
  (\<open>transcript[i:i + max_chunk_length]\<close> for \<open>i\<close> in
  \<open>range(0, len(transcript), max_chunk_length)\<close>); \<open>range\<close> raises on a zero step.
\<close>

definition max_chunk_length :: nat where
  "max_chunk_length = 30000"

function split_chunks :: "nat \<Rightarrow> pystr \<Rightarrow> pystr list" where
  "split_chunks n xs = (if n = 0 \<or> xs = [] then [] else take n xs # split_chunks n (drop n xs))"
  by pat_completeness auto
termination
  by (relation "measure (\<lambda>(n, xs). length xs)") auto

declare split_chunks.simps [simp del]

definition transcript_chunks :: "nat \<Rightarrow> pystr \<Rightarrow> exn + pystr list" where
  "transcript_chunks n transcript =
     (if length transcript > n
      then (if n = 0 then Inl (ValueError (lit ''range() arg 3 must not be zero''))
            else Inr (split_chunks n transcript))
      else Inr [transcript])"

text \<open>
  The loop over \<open>enumerate(transcript_chunks)\<close>: one call per chunk, in order; the first
  call that raises ends the loop.
\<close>

fun summarize_chunks ::
  "world \<Rightarrow> pystr \<Rightarrow> nat \<Rightarrow> nat \<Rightarrow> video_info \<Rightarrow> pystr list \<Rightarrow> state
     \<Rightarrow> (exn + pystr list) \<times> state" where
  "summarize_chunks w model n_chunks i info [] s = (Inr [], s)"
| "summarize_chunks w model n_chunks i info (chunk # rest) s =
     (let p = ChunkPrompt (i + 1) n_chunks info chunk;
          s1 = record_call (GenerateContent model p) s
      in case generate_content w model p of
           Inl e \<Rightarrow> (Inl e, s1)
         | Inr answer \<Rightarrow>
             (case summarize_chunks w model n_chunks (i + 1) info rest s1 of
                (Inl e, s2) \<Rightarrow> (Inl e, s2)
              | (Inr summaries, s2) \<Rightarrow> (Inr (strip answer # summaries), s2)))"

definition chunked_summary ::
  "nat \<Rightarrow> world \<Rightarrow> pystr \<Rightarrow> pystr \<Rightarrow> video_info \<Rightarrow> state \<Rightarrow> (exn + pystr) \<times> state" where
  "chunked_summary n w model transcript info s =
     (case transcript_chunks n transcript of
        Inl e \<Rightarrow> (Inl e, s)
      | Inr chunks \<Rightarrow>
          (case summarize_chunks w model (length chunks) 0 info chunks s of
             (Inl e, s1) \<Rightarrow> (Inl e, s1)
           | (Inr summaries, s1) \<Rightarrow>
               if length summaries > 1
               then (let p = FinalPrompt summaries;
                         s2 = record_call (GenerateContent model p) s1
                     in case generate_content w model p of
                          Inl e \<Rightarrow> (Inl e, s2)
                        | Inr answer \<Rightarrow> (Inr (strip answer), s2))
               else (case summaries of
                       [] \<Rightarrow> (Inl (ExternalError (lit ''list index out of range'')), s1)
                     | first # _ \<Rightarrow> (Inr first, s1))))"

definition GoogleAIAgent_generate_summary ::
  "world \<Rightarrow> pystr \<Rightarrow> pystr \<Rightarrow> video_info \<Rightarrow> state \<Rightarrow> (exn + pystr) \<times> state" where
  "GoogleAIAgent_generate_summary = chunked_summary max_chunk_length"

text \<open>\<open>ai_agent.generate_summary(transcript, video_info)\<close>, by the agent's class.\<close>

definition generate_summary ::
  "world \<Rightarrow> ai_agent \<Rightarrow> pystr \<Rightarrow> video_info \<Rightarrow> state \<Rightarrow> (exn + pystr) \<times> state" where
  "generate_summary w agent transcript info s0 =
     (let s = record_call GenerateSummary s0
      in case agent of
           OpenAIAgent model \<Rightarrow> single_call_summary w model transcript info s
         | AnthropicAgent model \<Rightarrow> single_call_summary w model transcript info s
         | GoogleAIAgent model \<Rightarrow> GoogleAIAgent_generate_summary w model transcript info s)"

text \<open>
  \<open>ai_agent.transcribe_audio(audio_file_path)\<close>: the OpenAI and Anthropic agents open the
  file and send it (the Anthropic answer is stripped); the Google agent builds an
  \<open>AudioProcessor\<close> of its own and transcribes locally.
\<close>

definition transcribe_audio :: "world \<Rightarrow> ai_agent \<Rightarrow> pystr \<Rightarrow> state \<Rightarrow> exn + pystr" where
  "transcribe_audio w agent audio_file_path s =
     (case agent of
        OpenAIAgent model \<Rightarrow>
          if \<not> isfile s audio_file_path then Inl (FileNotFoundError audio_file_path)
          else remote_transcribe w (lit ''whisper-1'') audio_file_path
      | AnthropicAgent model \<Rightarrow>
          if \<not> isfile s audio_file_path then Inl (FileNotFoundError audio_file_path)
          else (case remote_transcribe w (lit ''claude-3-sonnet-20240229'') audio_file_path of
                  Inl e \<Rightarrow> Inl e
                | Inr answer \<Rightarrow> Inr (strip answer))
      | GoogleAIAgent model \<Rightarrow>
          (case AudioProcessor_init w of
             Inl e \<Rightarrow> Inl e
           | Inr processor \<Rightarrow> transcribe_with_whisper w processor audio_file_path))"

text \<open>
  \<open>AIAgentFactory.create_agent()\<close>. The Google agent needs its key, tries the configured
  model with a test call and falls back to \<open>gemini-1.5-flash\<close> when that raises.
\<close>

definition GoogleAIAgent_init :: "config \<Rightarrow> world \<Rightarrow> state \<Rightarrow> (exn + ai_agent) \<times> state" where
  "GoogleAIAgent_init cfg w s =
     (if GOOGLE_API_KEY cfg = None \<or> GOOGLE_API_KEY cfg = Some []
      then (Inl (ValueError (lit ''GOOGLE_API_KEY es requerida para usar Google AI'')), s)
      else (let s1 = record_call (GenerateContent (GOOGLE_MODEL cfg) TestPrompt) s
            in case generate_content w (GOOGLE_MODEL cfg) TestPrompt of
                 Inl e \<Rightarrow> (Inr (GoogleAIAgent (lit ''gemini-1.5-flash'')), s1)
               | Inr answer \<Rightarrow> (Inr (GoogleAIAgent (GOOGLE_MODEL cfg)), s1)))"

definition create_agent :: "config \<Rightarrow> world \<Rightarrow> state \<Rightarrow> (exn + ai_agent) \<times> state" where
  "create_agent cfg w s =
     (let provider = AI_PROVIDER cfg
      in if provider = lit ''openai''
         then (case client_error w provider of
                 Some e \<Rightarrow> (Inl e, s) | None \<Rightarrow> (Inr (OpenAIAgent (OPENAI_MODEL cfg)), s))
         else if provider = lit ''anthropic''
         then (case client_error w provider of
                 Some e \<Rightarrow> (Inl e, s) | None \<Rightarrow> (Inr (AnthropicAgent (ANTHROPIC_MODEL cfg)), s))
         else if provider = lit ''google'' then GoogleAIAgent_init cfg w s
         else (Inl (ValueError (lit ''Proveedor de IA no soportado: '' @ provider)), s))"

section \<open>video\_processor.py\<close>

record video_processor =
  audio_processor :: audio_processor
  ai_agent :: ai_agent
  temp_files :: "pystr list"

text \<open>\<open>VideoProcessor()\<close>.\<close>

definition VideoProcessor_init ::
  "config \<Rightarrow> world \<Rightarrow> state \<Rightarrow> (exn + video_processor) \<times> state" where
  "VideoProcessor_init cfg w s =
     (case AudioProcessor_init w of
        Inl e \<Rightarrow> (Inl e, s)
      | Inr ap \<Rightarrow>
          (case create_agent cfg w s of
             (Inl e, s1) \<Rightarrow> (Inl e, s1)
           | (Inr agent, s1) \<Rightarrow>
               (Inr \<lparr>audio_processor = ap, ai_agent = agent, temp_files = []\<rparr>, s1)))"

text \<open>\<open>_transcribe_audio(audio_path)\<close>.\<close>

definition transcribe_audio_step ::
  "config \<Rightarrow> world \<Rightarrow> video_processor \<Rightarrow> pystr \<Rightarrow> state \<Rightarrow> (exn + pystr) \<times> state" where
  "transcribe_audio_step cfg w vp audio_path s0 =
     (let s = record_call (TranscribeAudio audio_path) s0
      in if TRANSCRIPTION_MODEL cfg = lit ''whisper''
         then (transcribe_with_whisper w (audio_processor vp) audio_path, s)
         else (transcribe_audio w (ai_agent vp) audio_path s, s))"

text \<open>
  \<open>_format_summary_content(result)\<close>: the f-string, then \<open>strip()\<close>. The three parts are
  what stands before the transcript, between transcript and summary, and after the
  summary (code points 211, 243 and 241 are the accented letters of the headings).
\<close>

definition content_head :: "world \<Rightarrow> result \<Rightarrow> pystr" where
  "content_head w r =
     lit ''RESUMEN DE VIDEO'' @ [NL] @ replicate 50 61 @ [NL] @ [NL]
     @ lit ''INFORMACI'' @ [211] @ lit ''N DEL VIDEO:'' @ [NL]
     @ lit ''- Archivo: '' @ str_upper w (format (res_video_info r)) @ [NL]
     @ lit ''- Duraci'' @ [243] @ lit ''n: '' @ format_2f w (duration (res_video_info r))
     @ lit '' segundos'' @ [NL]
     @ lit ''- Tama'' @ [241] @ lit ''o: '' @ format_2f w (size_mb (res_video_info r))
     @ lit '' MB'' @ [NL]
     @ lit ''- Resoluci'' @ [243] @ lit ''n: '' @ str_nat (fst (size_wh (res_video_info r)))
     @ lit ''x'' @ str_nat (snd (size_wh (res_video_info r))) @ [NL]
     @ lit ''- FPS: '' @ str_float w (fps (res_video_info r)) @ [NL] @ [NL]
     @ lit ''CONFIGURACI'' @ [211] @ lit ''N:'' @ [NL]
     @ lit ''- Proveedor de IA: '' @ str_upper w (res_ai_provider r) @ [NL]
     @ lit ''- Modelo de transcripci'' @ [243] @ lit ''n: ''
     @ str_upper w (res_transcription_model r) @ [NL]
     @ lit ''- Procesado el: '' @ res_processed_at r @ [NL] @ [NL]
     @ lit ''TRANSCRIPCI'' @ [211] @ lit ''N COMPLETA:'' @ [NL] @ replicate 30 45 @ [NL]"

definition summary_heading :: pystr where
  "summary_heading = lit ''RESUMEN GENERADO:''"

definition content_middle :: pystr where
  "content_middle = [NL] @ [NL] @ summary_heading @ [NL] @ replicate 30 45 @ [NL]"

definition content_foot :: pystr where
  "content_foot = [NL] @ [NL] @ replicate 50 61"

definition format_summary_content :: "world \<Rightarrow> result \<Rightarrow> pystr" where
  "format_summary_content w r =
     strip ([NL] @ content_head w r @ res_transcript r @ content_middle @ res_summary r
            @ content_foot @ [NL] @ replicate 8 SP)"

text \<open>\<open>_save_result(result, video_path)\<close>.\<close>

definition output_path_of :: "config \<Rightarrow> pystr \<Rightarrow> datetime \<Rightarrow> pystr" where
  "output_path_of cfg video_path t =
     path_join (VIDEO_OUTPUT_FOLDER cfg)
       (path_stem video_path @ lit ''_resumen_'' @ strftime_seconds t @ lit ''.txt'')"

definition save_result ::
  "config \<Rightarrow> world \<Rightarrow> result \<Rightarrow> pystr \<Rightarrow> state \<Rightarrow> (exn + pystr) \<times> state" where
  "save_result cfg w r video_path s0 =
     (let s = record_call (SaveResult video_path) s0;
          (t, s1) = now w s;
          output_path = output_path_of cfg video_path t;
          content = format_summary_content w r
      in case open_error w output_path of
           Some e \<Rightarrow> (Inl e, s1)
         | None \<Rightarrow> (Inr output_path, s1\<lparr>files := (files s1)(output_path \<mapsto> Summary content)\<rparr>))"

text \<open>\<open>_cleanup_temp_files()\<close>.\<close>

definition VideoProcessor_cleanup_temp_files ::
  "world \<Rightarrow> video_processor \<Rightarrow> state \<Rightarrow> video_processor \<times> state" where
  "VideoProcessor_cleanup_temp_files w vp s =
     (if temp_files vp \<noteq> []
      then (vp\<lparr>temp_files := []\<rparr>, cleanup_temp_files w (temp_files vp) s)
      else (vp, s))"

text \<open>
  \<open>process_video(video_path)\<close>: the body of the \<open>try\<close>, then the \<open>finally\<close>. The \<open>except\<close>
  clause logs and raises the same exception again.
\<close>

definition size_error :: "world \<Rightarrow> config \<Rightarrow> video_info \<Rightarrow> exn" where
  "size_error w cfg info =
     ValueError (lit ''Video demasiado grande: '' @ format_2f w (size_mb info) @ lit ''MB > ''
                 @ str_int (MAX_VIDEO_SIZE_MB cfg) @ lit ''MB'')"

definition format_error :: "video_info \<Rightarrow> exn" where
  "format_error info = ValueError (lit ''Formato no soportado: '' @ format info)"

definition supported_format :: "world \<Rightarrow> config \<Rightarrow> pystr \<Rightarrow> bool" where
  "supported_format w cfg ext \<longleftrightarrow>
     str_lower w ext \<in> set (map (str_lower w) (SUPPORTED_FORMATS cfg))"

definition process_video_try ::
  "config \<Rightarrow> world \<Rightarrow> video_processor \<Rightarrow> pystr \<Rightarrow> state
     \<Rightarrow> (exn + result) \<times> video_processor \<times> state" where
  "process_video_try cfg w vp video_path s0 =
     (let s = record_call (PathExists video_path) s0
      in if \<not> path_exists w s video_path
         then (Inl (FileNotFoundError (lit ''Video no encontrado: '' @ video_path)), vp, s)
         else
           (case get_video_info w video_path s of
              (Inl e, s1) \<Rightarrow> (Inl e, vp, s1)
            | (Inr info, s1) \<Rightarrow>
                if size_mb info > real_of_int (MAX_VIDEO_SIZE_MB cfg)
                then (Inl (size_error w cfg info), vp, s1)
                else if \<not> supported_format w cfg (format info)
                then (Inl (format_error info), vp, s1)
                else
                  (case extract_audio_from_video w video_path s1 of
                     (Inl e, s2) \<Rightarrow> (Inl e, vp, s2)
                   | (Inr audio_path, s2) \<Rightarrow>
                       (let vp1 = vp\<lparr>temp_files := temp_files vp @ [audio_path]\<rparr>
                        in case transcribe_audio_step cfg w vp1 audio_path s2 of
                             (Inl e, s3) \<Rightarrow> (Inl e, vp1, s3)
                           | (Inr transcript, s3) \<Rightarrow>
                               (case generate_summary w (ai_agent vp1) transcript info s3 of
                                  (Inl e, s4) \<Rightarrow> (Inl e, vp1, s4)
                                | (Inr summary, s4) \<Rightarrow>
                                    (let (t, s5) = now w s4;
                                         r = \<lparr>res_video_path = video_path,
                                              res_video_info = info,
                                              res_transcript = transcript,
                                              res_summary = summary,
                                              res_processed_at = isoformat t,
                                              res_ai_provider = AI_PROVIDER cfg,
                                              res_transcription_model = TRANSCRIPTION_MODEL cfg\<rparr>
                                     in case save_result cfg w r video_path s5 of
                                          (Inl e, s6) \<Rightarrow> (Inl e, vp1, s6)
                                        | (Inr output_file, s6) \<Rightarrow> (Inr r, vp1, s6)))))))"

definition process_video ::
  "config \<Rightarrow> world \<Rightarrow> video_processor \<Rightarrow> pystr \<Rightarrow> state
     \<Rightarrow> (exn + result) \<times> video_processor \<times> state" where
  "process_video cfg w vp video_path s =
     (case process_video_try cfg w vp video_path s of
        (outcome, vp1, s1) \<Rightarrow>
          (case VideoProcessor_cleanup_temp_files w vp1 s1 of
             (vp2, s2) \<Rightarrow> (outcome, vp2, s2)))"

text \<open>
  \<open>process_folder(folder_path)\<close>. The files of the folder with a supported suffix are
  processed one after the other; the \<open>except\<close> clause of the loop logs the exception of a
  video and goes on. The loop below returns, beside \<open>results\<close>, the videos whose exception
  was logged there, in order; \<open>process_folder\<close> itself returns \<open>results\<close> only.
\<close>

definition folder_video_files :: "config \<Rightarrow> world \<Rightarrow> state \<Rightarrow> pystr \<Rightarrow> pystr list \<Rightarrow> pystr list" where
  "folder_video_files cfg w s folder_path names =
     map (path_join folder_path)
       (filter (\<lambda>name. isfile s (path_join folder_path name)
                  \<and> drop 1 (str_lower w (path_suffix name))
                      \<in> set (map (str_lower w) (SUPPORTED_FORMATS cfg)))
          names)"

fun process_each ::
  "config \<Rightarrow> world \<Rightarrow> video_processor \<Rightarrow> pystr list \<Rightarrow> state
     \<Rightarrow> result list \<times> (pystr \<times> exn) list \<times> video_processor \<times> state" where
  "process_each cfg w vp [] s = ([], [], vp, s)"
| "process_each cfg w vp (video_path # rest) s =
     (case process_video cfg w vp video_path s of
        (Inr r, vp1, s1) \<Rightarrow>
          (case process_each cfg w vp1 rest s1 of
             (rs, logged, vp2, s2) \<Rightarrow> (r # rs, logged, vp2, s2))
      | (Inl e, vp1, s1) \<Rightarrow>
          (case process_each cfg w vp1 rest s1 of
             (rs, logged, vp2, s2) \<Rightarrow> (rs, (video_path, e) # logged, vp2, s2)))"

definition process_folder ::
  "config \<Rightarrow> world \<Rightarrow> video_processor \<Rightarrow> pystr option \<Rightarrow> state
     \<Rightarrow> (exn + result list) \<times> video_processor \<times> state" where
  "process_folder cfg w vp folder s =
     (let folder_path = (case folder of
                           None \<Rightarrow> VIDEO_INPUT_FOLDER cfg
                         | Some p \<Rightarrow> if p = [] then VIDEO_INPUT_FOLDER cfg else p)
      in case listdir w folder_path of
           Inl e \<Rightarrow> (Inl e, vp, s)
         | Inr names \<Rightarrow>
             (case process_each cfg w vp (folder_video_files cfg w s folder_path names) s of
                (rs, logged, vp1, s1) \<Rightarrow> (Inr rs, vp1, s1)))"

section \<open>Task identifiers (main.py)\<close>

datatype endpoint = Video | Folder | WebhookVideo | WebhookFolder

definition id_prefix :: "endpoint \<Rightarrow> pystr" where
  "id_prefix k =
     (case k of Video \<Rightarrow> lit ''video_'' | Folder \<Rightarrow> lit ''folder_''
      | WebhookVideo \<Rightarrow> lit ''webhook_video_'' | WebhookFolder \<Rightarrow> lit ''webhook_folder_'')"

text \<open>\<open>f"video_{datetime.now().strftime('%Y%m%d_%H%M%S_%f')}"\<close> and its siblings.\<close>

definition new_task_id :: "endpoint \<Rightarrow> datetime \<Rightarrow> pystr" where
  "new_task_id k d = id_prefix k @ strftime_micro d"

section \<open>main.py\<close>

record request =
  req_video_path :: "pystr option"
  req_folder_path :: "pystr option"
  req_callback_url :: "pystr option"

record processing_response =
  resp_task_id :: pystr
  resp_status :: status
  resp_message :: pystr
  resp_timestamp :: pystr

record processing_result =
  pr_task_id :: pystr
  pr_status :: status
  pr_results :: "result list"
  pr_errors :: "pystr list"
  pr_completed_at :: pystr

definition new_task :: "pystr \<Rightarrow> task" where
  "new_task started =
     \<lparr>task_status = Processing, task_results = [], task_errors = [], started_at = started,
      completed_at = None\<rparr>"

text \<open>
  What every submitting handler does: it makes the identifier from the clock, stores the
  new entry under it (an entry already there is replaced) and schedules the background
  task.
\<close>

definition start_task :: "world \<Rightarrow> endpoint \<Rightarrow> (pystr \<Rightarrow> job) \<Rightarrow> state \<Rightarrow> pystr \<times> state" where
  "start_task w k mk s =
     (let (t1, s1) = now w s;
          task_id = new_task_id k t1;
          (t2, s2) = now w s1;
          s3 = s2\<lparr>processing_tasks := (processing_tasks s2)(task_id \<mapsto> new_task (isoformat t2))\<rparr>
      in (task_id, s3\<lparr>background_tasks := background_tasks s3 @ [mk task_id]\<rparr>))"

definition accepted :: "world \<Rightarrow> pystr \<Rightarrow> pystr \<Rightarrow> state \<Rightarrow> (exn + processing_response) \<times> state" where
  "accepted w task_id msg s =
     (let (t, s1) = now w s
      in (Inr \<lparr>resp_task_id = task_id, resp_status = Processing, resp_message = msg,
               resp_timestamp = isoformat t\<rparr>, s1))"

text \<open>
  \<open>POST /process-video\<close>. The 400 raised for a missing path is caught by the handler's own
  \<open>except\<close> clause and raised again as a 500.
\<close>

definition post_process_video ::
  "world \<Rightarrow> request \<Rightarrow> state \<Rightarrow> (exn + processing_response) \<times> state" where
  "post_process_video w request s =
     (case req_video_path request of
        None \<Rightarrow>
          (Inl (HTTPException 500 (str_exn (HTTPException 400 (lit ''video_path es requerido'')))), s)
      | Some p \<Rightarrow>
          if p = []
          then (Inl (HTTPException 500
                  (str_exn (HTTPException 400 (lit ''video_path es requerido'')))), s)
          else (case start_task w Video (\<lambda>task_id. VideoTask task_id p (req_callback_url request)) s of
                  (task_id, s1) \<Rightarrow> accepted w task_id (lit ''Procesamiento iniciado'') s1))"

text \<open>\<open>POST /process-folder\<close>.\<close>

definition post_process_folder ::
  "config \<Rightarrow> world \<Rightarrow> request \<Rightarrow> state \<Rightarrow> (exn + processing_response) \<times> state" where
  "post_process_folder cfg w request s =
     (let folder_path = (case req_folder_path request of
                           None \<Rightarrow> VIDEO_INPUT_FOLDER cfg
                         | Some p \<Rightarrow> if p = [] then VIDEO_INPUT_FOLDER cfg else p)
      in case start_task w Folder
                (\<lambda>task_id. FolderTask task_id folder_path (req_callback_url request)) s of
           (task_id, s1) \<Rightarrow> accepted w task_id (lit ''Procesamiento de carpeta iniciado'') s1)"

text \<open>\<open>POST /webhook/process\<close>.\<close>

definition webhook_process ::
  "world \<Rightarrow> request \<Rightarrow> state \<Rightarrow> (exn + processing_response) \<times> state" where
  "webhook_process w request s =
     (let bad = (Inl (HTTPException 500
                   (str_exn (HTTPException 400 (lit ''video_path o folder_path es requerido'')))), s);
          folder_case =
            (case req_folder_path request of
               None \<Rightarrow> bad
             | Some f \<Rightarrow>
                 if f = [] then bad
                 else (case start_task w WebhookFolder
                              (\<lambda>task_id. FolderTask task_id f (req_callback_url request)) s of
                         (task_id, s1) \<Rightarrow>
                           accepted w task_id (lit ''Procesamiento iniciado via webhook'') s1))
      in case req_video_path request of
           None \<Rightarrow> folder_case
         | Some p \<Rightarrow>
             if p = [] then folder_case
             else (case start_task w WebhookVideo
                          (\<lambda>task_id. VideoTask task_id p (req_callback_url request)) s of
                     (task_id, s1) \<Rightarrow>
                       accepted w task_id (lit ''Procesamiento iniciado via webhook'') s1))"

text \<open>
  \<open>GET /task/{task_id}\<close>. \<open>task["completed_at"] or datetime.now().isoformat()\<close> reads the
  clock only when the stored value is \<open>None\<close> or empty.
\<close>

definition get_task_status ::
  "world \<Rightarrow> pystr \<Rightarrow> state \<Rightarrow> (exn + processing_result) \<times> state" where
  "get_task_status w task_id s =
     (case processing_tasks s task_id of
        None \<Rightarrow> (Inl (HTTPException 404 (lit ''Tarea no encontrada'')), s)
      | Some t \<Rightarrow>
          (case (case completed_at t of
                   None \<Rightarrow> (case now w s of (d, s1) \<Rightarrow> (isoformat d, s1))
                 | Some c \<Rightarrow> if c = [] then (case now w s of (d, s1) \<Rightarrow> (isoformat d, s1))
                             else (c, s)) of
             (c, s1) \<Rightarrow>
               (Inr \<lparr>pr_task_id = task_id, pr_status = task_status t, pr_results = task_results t,
                     pr_errors = task_errors t, pr_completed_at = c\<rparr>, s1)))"

text \<open>
  \<open>send_callback\<close>: everything it does stands in a \<open>try\<close> whose \<open>except\<close> clause logs, so
  it never raises; the request is logged as a call whether or not it is delivered.
\<close>

definition send_callback ::
  "world \<Rightarrow> pystr \<Rightarrow> pystr \<Rightarrow> status \<Rightarrow> result list \<Rightarrow> pystr list \<Rightarrow> state \<Rightarrow> state" where
  "send_callback w url task_id st rs errs s =
     (case import_aiohttp w of
        Some e \<Rightarrow> s
      | None \<Rightarrow>
          (case now w s of
             (d, s1) \<Rightarrow>
               record_call (Post url \<lparr>cb_task_id = task_id, cb_status = st, cb_results = rs,
                                      cb_errors = errs, cb_timestamp = isoformat d\<rparr>) s1))"

definition notify ::
  "world \<Rightarrow> pystr option \<Rightarrow> pystr \<Rightarrow> status \<Rightarrow> result list \<Rightarrow> pystr list \<Rightarrow> state \<Rightarrow> state" where
  "notify w callback_url task_id st rs errs s =
     (case callback_url of
        None \<Rightarrow> s
      | Some url \<Rightarrow> if url = [] then s else send_callback w url task_id st rs errs s)"

text \<open>
  The three assignments to \<open>processing_tasks[task_id]\<close> of a worker's normal path and of
  its \<open>except\<close> clause; the first of them raises \<open>KeyError\<close> for an unknown task.
\<close>

definition mark_completed :: "world \<Rightarrow> pystr \<Rightarrow> result list \<Rightarrow> state \<Rightarrow> (exn + unit) \<times> state" where
  "mark_completed w task_id rs s =
     (case processing_tasks s task_id of
        None \<Rightarrow> (Inl (KeyError task_id), s)
      | Some t \<Rightarrow>
          (case now w s of
             (d, s1) \<Rightarrow>
               (Inr (), s1\<lparr>processing_tasks := (processing_tasks s1)
                  (task_id \<mapsto> t\<lparr>task_status := Completed, task_results := rs,
                                  completed_at := Some (isoformat d)\<rparr>)\<rparr>)))"

definition mark_error :: "world \<Rightarrow> pystr \<Rightarrow> exn \<Rightarrow> state \<Rightarrow> (exn + unit) \<times> state" where
  "mark_error w task_id e s =
     (case processing_tasks s task_id of
        None \<Rightarrow> (Inl (KeyError task_id), s)
      | Some t \<Rightarrow>
          (case now w s of
             (d, s1) \<Rightarrow>
               (Inr (), s1\<lparr>processing_tasks := (processing_tasks s1)
                  (task_id \<mapsto> t\<lparr>task_status := Error, task_errors := [str_exn e],
                                  completed_at := Some (isoformat d)\<rparr>)\<rparr>)))"

text \<open>\<open>process_video_task\<close>: the body of its \<open>try\<close>, then the whole function.\<close>

definition process_video_task_try ::
  "config \<Rightarrow> world \<Rightarrow> pystr \<Rightarrow> pystr \<Rightarrow> pystr option \<Rightarrow> state \<Rightarrow> (exn + unit) \<times> state" where
  "process_video_task_try cfg w task_id video_path callback_url s =
     (case VideoProcessor_init cfg w s of
        (Inl e, s1) \<Rightarrow> (Inl e, s1)
      | (Inr processor, s1) \<Rightarrow>
          (case process_video cfg w processor video_path s1 of
             (Inl e, vp, s2) \<Rightarrow> (Inl e, s2)
           | (Inr r, vp, s2) \<Rightarrow>
               (case mark_completed w task_id [r] s2 of
                  (Inl e, s3) \<Rightarrow> (Inl e, s3)
                | (Inr u, s3) \<Rightarrow> (Inr (), notify w callback_url task_id Completed [r] [] s3))))"

definition process_video_task ::
  "config \<Rightarrow> world \<Rightarrow> pystr \<Rightarrow> pystr \<Rightarrow> pystr option \<Rightarrow> state \<Rightarrow> (exn + unit) \<times> state" where
  "process_video_task cfg w task_id video_path callback_url s =
     (case process_video_task_try cfg w task_id video_path callback_url s of
        (Inr u, s1) \<Rightarrow> (Inr (), s1)
      | (Inl e, s1) \<Rightarrow>
          (case mark_error w task_id e s1 of
             (Inl e2, s2) \<Rightarrow> (Inl e2, s2)
           | (Inr u, s2) \<Rightarrow> (Inr (), notify w callback_url task_id Error [] [str_exn e] s2)))"

text \<open>\<open>process_folder_task\<close>, likewise.\<close>

definition process_folder_task_try ::
  "config \<Rightarrow> world \<Rightarrow> pystr \<Rightarrow> pystr \<Rightarrow> pystr option \<Rightarrow> state \<Rightarrow> (exn + unit) \<times> state" where
  "process_folder_task_try cfg w task_id folder_path callback_url s =
     (case VideoProcessor_init cfg w s of
        (Inl e, s1) \<Rightarrow> (Inl e, s1)
      | (Inr processor, s1) \<Rightarrow>
          (case process_folder cfg w processor (Some folder_path) s1 of
             (Inl e, vp, s2) \<Rightarrow> (Inl e, s2)
           | (Inr rs, vp, s2) \<Rightarrow>
               (case mark_completed w task_id rs s2 of
                  (Inl e, s3) \<Rightarrow> (Inl e, s3)
                | (Inr u, s3) \<Rightarrow> (Inr (), notify w callback_url task_id Completed rs [] s3))))"

definition process_folder_task ::
  "config \<Rightarrow> world \<Rightarrow> pystr \<Rightarrow> pystr \<Rightarrow> pystr option \<Rightarrow> state \<Rightarrow> (exn + unit) \<times> state" where
  "process_folder_task cfg w task_id folder_path callback_url s =
     (case process_folder_task_try cfg w task_id folder_path callback_url s of
        (Inr u, s1) \<Rightarrow> (Inr (), s1)
      | (Inl e, s1) \<Rightarrow>
          (case mark_error w task_id e s1 of
             (Inl e2, s2) \<Rightarrow> (Inl e2, s2)
           | (Inr u, s2) \<Rightarrow> (Inr (), notify w callback_url task_id Error [] [str_exn e] s2)))"

subsection \<open>The service as a whole\<close>

text \<open>
  A run of the service is a sequence of events from the state of a fresh process: a
  request to one of the handlers, or the execution of one of the scheduled background
  tasks (the \<open>n\<close>-th of those waiting), which leaves the queue as it starts.
\<close>

datatype submission =
    ToProcessVideo request
  | ToProcessFolder request
  | ToWebhook request

datatype event =
    Submit submission
  | GetTask pystr
  | RunBackground nat

definition submit ::
  "config \<Rightarrow> world \<Rightarrow> submission \<Rightarrow> state \<Rightarrow> (exn + processing_response) \<times> state" where
  "submit cfg w sub s =
     (case sub of
        ToProcessVideo request \<Rightarrow> post_process_video w request s
      | ToProcessFolder request \<Rightarrow> post_process_folder cfg w request s
      | ToWebhook request \<Rightarrow> webhook_process w request s)"

definition run_job :: "config \<Rightarrow> world \<Rightarrow> job \<Rightarrow> state \<Rightarrow> (exn + unit) \<times> state" where
  "run_job cfg w j s =
     (case j of
        VideoTask task_id p cb \<Rightarrow> process_video_task cfg w task_id p cb s
      | FolderTask task_id p cb \<Rightarrow> process_folder_task cfg w task_id p cb s)"

definition step :: "config \<Rightarrow> world \<Rightarrow> event \<Rightarrow> state \<Rightarrow> state" where
  "step cfg w ev s =
     (case ev of
        Submit sub \<Rightarrow> snd (submit cfg w sub s)
      | GetTask task_id \<Rightarrow> snd (get_task_status w task_id s)
      | RunBackground n \<Rightarrow>
          if n < length (background_tasks s)
          then snd (run_job cfg w (background_tasks s ! n)
                      (s\<lparr>background_tasks :=
                           take n (background_tasks s) @ drop (Suc n) (background_tasks s)\<rparr>))
          else s)"

definition initial_state :: "(pystr \<rightharpoonup> content) \<Rightarrow> state" where
  "initial_state disk =
     \<lparr>ticks = 0, files = disk, open_clips = [], calls = [], processing_tasks = Map.empty,
      background_tasks = []\<rparr>"

fun run :: "config \<Rightarrow> world \<Rightarrow> event list \<Rightarrow> state \<Rightarrow> state" where
  "run cfg w [] s = s"
| "run cfg w (ev # evs) s = run cfg w evs (step cfg w ev s)"

section \<open>Vocabulary of the properties\<close>

text \<open>
  The calls logged between two states, the provider calls that summarize one chunk, the
  provider calls that combine the chunks' summaries, and \<open>ceil(a / b)\<close> on natural numbers.
\<close>

definition new_calls :: "state \<Rightarrow> state \<Rightarrow> call list" where
  "new_calls s s' = drop (length (calls s)) (calls s')"

definition is_chunk_call :: "call \<Rightarrow> bool" where
  "is_chunk_call c =
     (case c of GenerateContent model (ChunkPrompt i n info chunk) \<Rightarrow> True | _ \<Rightarrow> False)"

definition is_combining_call :: "call \<Rightarrow> bool" where
  "is_combining_call c =
     (case c of GenerateContent model (FinalPrompt summaries) \<Rightarrow> True | _ \<Rightarrow> False)"

definition ceil_div :: "nat \<Rightarrow> nat \<Rightarrow> nat" where
  "ceil_div a b = (a + b - 1) div b"

text \<open>
  The task registry and the queue of background tasks, which the pipeline never touches,
  and the stage a logged call belongs to: 1 existence check, 2 metadata extraction,
  5 audio extraction, 6 transcription, 7 summarization, 8 persistence, 9 cleanup,
  10 notification (the size and format policies, 3 and 4, make no call).
\<close>

definition registry :: "state \<Rightarrow> (pystr \<rightharpoonup> task) \<times> job list" where
  "registry s = (processing_tasks s, background_tasks s)"

definition stage_rank :: "call \<Rightarrow> nat" where
  "stage_rank c =
     (case c of PathExists p \<Rightarrow> 1 | GetVideoInfo p \<Rightarrow> 2 | ExtractAudio p \<Rightarrow> 5
      | TranscribeAudio p \<Rightarrow> 6 | GenerateSummary \<Rightarrow> 7 | GenerateContent m pr \<Rightarrow> 7
      | SaveResult p \<Rightarrow> 8 | Remove p \<Rightarrow> 9 | Post u pl \<Rightarrow> 10)"

text \<open>
  The identifier a background task was scheduled with; a task record whose completion
  time is set exactly when its status is terminal; and the registry of a process in which
  every scheduled background task is registered and every record is of that kind.
\<close>

definition job_id :: "job \<Rightarrow> pystr" where
  "job_id j = (case j of VideoTask task_id p cb \<Rightarrow> task_id | FolderTask task_id p cb \<Rightarrow> task_id)"

definition settled :: "task \<Rightarrow> bool" where
  "settled t \<longleftrightarrow>
     (case completed_at t of
        None \<Rightarrow> task_status t = Processing
      | Some c \<Rightarrow> task_status t \<noteq> Processing \<and> c \<noteq> [])"

definition registry_ok :: "state \<Rightarrow> bool" where
  "registry_ok s \<longleftrightarrow>
     (\<forall>j \<in> set (background_tasks s). processing_tasks s (job_id j) \<noteq> None)
     \<and> (\<forall>t \<in> ran (processing_tasks s). settled t)"

text \<open>
  What a worker for the task \<open>tid\<close> can have done to the registry when it ends: nothing
  if the task is unknown; otherwise it returned normally and replaced the record by one
  with a terminal status.
\<close>

definition worker_effect :: "pystr \<Rightarrow> state \<Rightarrow> (exn + unit) \<times> state \<Rightarrow> bool" where
  "worker_effect tid s out \<longleftrightarrow>
     background_tasks (snd out) = background_tasks s
     \<and> (case processing_tasks s tid of
           None \<Rightarrow> processing_tasks (snd out) = processing_tasks s
         | Some t \<Rightarrow> fst out = Inr ()
             \<and> (\<exists>t'. settled t' \<and> task_status t' \<noteq> Processing
                   \<and> processing_tasks (snd out) = (processing_tasks s)(tid \<mapsto> t')))"

section \<open>Example worlds\<close>

text \<open>
  Concrete inputs for the examples below: Python's case mappings on ASCII, a
  configuration with the defaults of \<open>config.py\<close>, and a world in which every call
  succeeds: the clock advances by a microsecond per reading, the folder \<open>/videos\<close> holds
  \<open>demo.mp4\<close> and \<open>silent.mp4\<close> (5 MB each, the second without an audio stream) and
  \<open>notes.txt\<close>.
\<close>

definition ascii_lower :: "pystr \<Rightarrow> pystr" where
  "ascii_lower = map (\<lambda>c. if 65 \<le> c \<and> c \<le> 90 then c + 32 else c)"

definition ascii_upper :: "pystr \<Rightarrow> pystr" where
  "ascii_upper = map (\<lambda>c. if 97 \<le> c \<and> c \<le> 122 then c - 32 else c)"

definition sample_now :: datetime where
  "sample_now =
     \<lparr>year = 2024, month = 5, day = 17, hour = 10, minute = 30, second = 15,
      microsecond = 123000\<rparr>"

definition sample_config :: config where
  "sample_config =
     \<lparr>VIDEO_INPUT_FOLDER = lit ''./videos'', VIDEO_OUTPUT_FOLDER = lit ''./processed'',
      AI_PROVIDER = lit ''openai'', OPENAI_MODEL = lit ''gpt-4'',
      ANTHROPIC_MODEL = lit ''claude-3-sonnet-20240229'', GOOGLE_API_KEY = None,
      GOOGLE_MODEL = lit ''gemini-pro'', TRANSCRIPTION_MODEL = lit ''whisper'',
      MAX_VIDEO_SIZE_MB = 1000,
      SUPPORTED_FORMATS = [lit ''mp4'', lit ''avi'', lit ''mov'', lit ''mkv'', lit ''webm'']\<rparr>"

definition sample_clip :: "pystr \<Rightarrow> clip" where
  "sample_clip p =
     \<lparr>clip_duration = 30, clip_fps = 25, clip_size = (640, 360),
      clip_has_audio = (p \<noteq> lit ''/videos/silent.mp4'')\<rparr>"

definition sample_world :: world where
  "sample_world =
     \<lparr>clock = (\<lambda>k. sample_now\<lparr>microsecond := 123000 + k\<rparr>),
      str_lower = ascii_lower, str_upper = ascii_upper,
      format_2f = (\<lambda>x. lit ''5.00''), str_float = (\<lambda>x. lit ''25.0''),
      tempdir = lit ''/tmp'',
      is_dir = (\<lambda>p. p = lit ''/videos''),
      listdir = (\<lambda>p. if p = lit ''/videos''
                      then Inr [lit ''demo.mp4'', lit ''silent.mp4'', lit ''notes.txt'']
                      else Inl (FileNotFoundError p)),
      getsize = (\<lambda>p. Inr 5242880),
      video_file_clip = (\<lambda>p. Inr (sample_clip p)),
      write_audiofile = (\<lambda>p out. None),
      remove_error = (\<lambda>p. None),
      open_error = (\<lambda>p. None),
      load_model = None,
      whisper_transcribe = (\<lambda>p. Inr (lit ''hola mundo'')),
      client_error = (\<lambda>p. None),
      remote_transcribe = (\<lambda>m p. Inr (lit ''hola mundo'')),
      generate_content = (\<lambda>m p. Inr (lit ''OK'')),
      import_aiohttp = None\<rparr>"

definition sample_disk :: "pystr \<rightharpoonup> content" where
  "sample_disk =
     [lit ''/videos/demo.mp4'' \<mapsto> Media, lit ''/videos/silent.mp4'' \<mapsto> Media,
      lit ''/videos/notes.txt'' \<mapsto> Summary (lit ''notes'')]"

definition video_request :: "pystr \<Rightarrow> request" where
  "video_request p = \<lparr>req_video_path = Some p, req_folder_path = None, req_callback_url = None\<rparr>"


text \<open>The identifier a submission returned, if it was accepted.\<close>

definition returned_id :: "(exn + processing_response) \<times> state \<Rightarrow> pystr option" where
  "returned_id out = (case fst out of Inl e \<Rightarrow> None | Inr r \<Rightarrow> Some (resp_task_id r))"

text \<open>
  An event that spares the task \<open>tid\<close>: it is not a submission that is given this
  identifier, and not the execution of a background task scheduled with it. A sequence of
  events, run from a state, in which every event spares the task.
\<close>

definition spares :: "config \<Rightarrow> world \<Rightarrow> pystr \<Rightarrow> event \<Rightarrow> state \<Rightarrow> bool" where
  "spares cfg w tid ev s =
     (case ev of
        Submit sub \<Rightarrow> returned_id (submit cfg w sub s) \<noteq> Some tid
      | GetTask task_id \<Rightarrow> True
      | RunBackground n \<Rightarrow>
          length (background_tasks s) \<le> n \<or> job_id (background_tasks s ! n) \<noteq> tid)"

fun spared :: "config \<Rightarrow> world \<Rightarrow> pystr \<Rightarrow> event list \<Rightarrow> state \<Rightarrow> bool" where
  "spared cfg w tid [] s = True"
| "spared cfg w tid (ev # evs) s
     = (spares cfg w tid ev s \<and> spared cfg w tid evs (step cfg w ev s))"

text \<open>
  A world whose clock does not advance between readings (a clock of coarse resolution, or
  local time that is set back), and the two videos of the folder.
\<close>

definition stalled_world :: world where
  "stalled_world = sample_world\<lparr>clock := (\<lambda>k. sample_now)\<rparr>"

definition demo_video :: pystr where
  "demo_video = lit ''/videos/demo.mp4''"

definition silent_video :: pystr where
  "silent_video = lit ''/videos/silent.mp4''"

definition sample_info :: video_info where
  "sample_info =
     \<lparr>duration = 30, fps = 25, size_wh = (640, 360), format = lit ''mp4'', size_mb = 5,
      has_audio = True\<rparr>"

text \<open>
  The processor \<open>VideoProcessor()\<close> builds in the example world, and a world in which
  \<open>os.remove\<close> fails.
\<close>

definition sample_processor :: video_processor where
  "sample_processor =
     \<lparr>audio_processor = \<lparr>whisper_model = True\<rparr>, ai_agent = OpenAIAgent (lit ''gpt-4''),
      temp_files = []\<rparr>"

definition locked_world :: world where
  "locked_world = sample_world\<lparr>remove_error := (\<lambda>p. Some (ExternalError (lit ''Permission denied'')))\<rparr>"

text \<open>
  A world in which every file has 2000 MB, a file of the folder that is no video, and a
  path that does not exist.
\<close>

definition large_world :: world where
  "large_world = sample_world\<lparr>getsize := (\<lambda>p. Inr 2097152000)\<rparr>"

definition notes_file :: pystr where
  "notes_file = lit ''/videos/notes.txt''"

definition missing_video :: pystr where
  "missing_video = lit ''/videos/missing.mp4''"

text \<open>The process after a request for a video that is not on the disk was accepted.\<close>

definition missing_submitted :: state where
  "missing_submitted =
     snd (submit sample_config sample_world (ToProcessVideo (video_request missing_video))
            (initial_state sample_disk))"

text \<open>
  Two requests that are given the same identifier by the stalled clock, both accepted
  before either background task runs; and the process when the first of the two tasks
  starts.
\<close>

definition colliding_events :: "event list" where
  "colliding_events =
     [Submit (ToProcessVideo (video_request demo_video)),
      Submit (ToProcessVideo (video_request missing_video)),
      RunBackground 0, RunBackground 0]"

definition collision_queued :: state where
  "collision_queued =
     (initial_state sample_disk)
       \<lparr>ticks := 6,
        processing_tasks := [lit ''video_20240517_103015_123000''
                               \<mapsto> new_task (lit ''2024-05-17T10:30:15.123000'')],
        background_tasks := [VideoTask (lit ''video_20240517_103015_123000'') missing_video None]\<rparr>"

text \<open>The process after the background task of that request has run.\<close>

definition missing_failed :: state where
  "missing_failed = step sample_config sample_world (RunBackground 0) missing_submitted"


section \<open>Properties\<close>

lemma length_zpad [simp]: "length (zpad k n) = k"
  by (induction k arbitrary: n) auto

lemma zpad_inj: "n < 10 ^ k \<Longrightarrow> m < 10 ^ k \<Longrightarrow> zpad k n = zpad k m \<Longrightarrow> n = m"
proof (induction k arbitrary: n m)
  case 0
  then show ?case by simp
next
  case (Suc k)
  from Suc.prems(3) have eq: "zpad k (n div 10) = zpad k (m div 10)" and r: "n mod 10 = m mod 10"
    by simp_all
  have "n div 10 < 10 ^ k" "m div 10 < 10 ^ k"
    using Suc.prems(1,2) by (simp_all add: less_mult_imp_div_less mult.commute)
  with eq Suc.IH have "n div 10 = m div 10" by blast
  with r show ?case by (metis div_mult_mod_eq)
qed

subsection \<open>Dates and literals\<close>

lemma zpad_numeral [simp]:
  "zpad (numeral k) n = zpad (pred_numeral k) (n div 10) @ [48 + n mod 10]"
proof -
  have "numeral k = Suc (pred_numeral k)" by (rule numeral_eq_Suc)
  then show ?thesis by (simp only: zpad.simps)
qed

lemma zpad_1 [simp]: "zpad 1 n = [48 + n mod 10]"
  by simp

lemma lit_nonempty [simp]: "lit (c # cs) \<noteq> []"
  by (simp add: lit_def)

lemma demo_video_nonempty [simp]: "demo_video \<noteq> []" "silent_video \<noteq> []"
  by (simp_all add: demo_video_def silent_video_def)

lemma length_strftime_micro [simp]: "length (strftime_micro d) = 22"
  by (simp add: strftime_micro_def strftime_seconds_def lit_def)

lemma strftime_micro_inj:
  assumes "valid_datetime d" "valid_datetime d'" "strftime_micro d = strftime_micro d'"
  shows "d = d'"
proof -
  from assms(3) have
    "zpad 4 (year d) = zpad 4 (year d')" "zpad 2 (month d) = zpad 2 (month d')"
    "zpad 2 (day d) = zpad 2 (day d')" "zpad 2 (hour d) = zpad 2 (hour d')"
    "zpad 2 (minute d) = zpad 2 (minute d')" "zpad 2 (second d) = zpad 2 (second d')"
    "zpad 6 (microsecond d) = zpad 6 (microsecond d')"
    by (simp_all add: strftime_micro_def strftime_seconds_def lit_def)
  moreover have "year d < 10 ^ 4" "year d' < 10 ^ 4" "month d < 10 ^ 2" "month d' < 10 ^ 2"
    "day d < 10 ^ 2" "day d' < 10 ^ 2" "hour d < 10 ^ 2" "hour d' < 10 ^ 2"
    "minute d < 10 ^ 2" "minute d' < 10 ^ 2" "second d < 10 ^ 2" "second d' < 10 ^ 2"
    "microsecond d < 10 ^ 6" "microsecond d' < 10 ^ 6"
    using assms(1,2) by (simp_all add: valid_datetime_def)
  ultimately have "year d = year d'" "month d = month d'" "day d = day d'" "hour d = hour d'"
    "minute d = minute d'" "second d = second d'" "microsecond d = microsecond d'"
    by (blast intro: zpad_inj)+
  then show ?thesis by simp
qed

subsection \<open>Task identifiers\<close>

lemma new_task_id_inj:
  assumes "valid_datetime d" "valid_datetime d'" "new_task_id k d = new_task_id k' d'"
  shows "d = d'"
proof -
  from assms(3) have "strftime_micro d = strftime_micro d'"
    unfolding new_task_id_def by (simp add: append_eq_append_conv)
  with assms(1,2) show ?thesis by (rule strftime_micro_inj)
qed

lemma start_task_id: "fst (start_task w k mk s) = new_task_id k (clock w (ticks s))"
  by (simp add: start_task_def now_def Let_def split: prod.splits)

lemma accepted_id: "accepted w tid msg s = (Inr r, s') \<Longrightarrow> resp_task_id r = tid"
  by (auto simp: accepted_def now_def split: prod.splits)

lemma submit_id:
  assumes "submit cfg w sub s = (Inr r, s')"
  shows "\<exists>k. resp_task_id r = new_task_id k (clock w (ticks s))"
  using assms start_task_id accepted_id
  apply (cases sub)
  apply (auto simp: submit_def post_process_video_def post_process_folder_def
      webhook_process_def Let_def split: option.splits if_splits prod.splits)
  apply (metis fst_conv)+
  done

lemma returned_id_video:
  "p \<noteq> [] \<Longrightarrow>
   returned_id (submit cfg w (ToProcessVideo (video_request p)) s)
     = Some (new_task_id Video (clock w (ticks s)))"
  by (simp add: returned_id_def submit_def video_request_def post_process_video_def
      start_task_def accepted_def now_def Let_def split: prod.splits)

lemma ticks_submit_video:
  "p \<noteq> [] \<Longrightarrow> ticks (snd (submit cfg w (ToProcessVideo (video_request p)) s)) = ticks s + 3"
  by (simp add: returned_id_def submit_def video_request_def post_process_video_def
      start_task_def accepted_def now_def Let_def split: prod.splits)

lemma submit_video_accepted:
  "p \<noteq> [] \<Longrightarrow> \<exists>r. fst (submit cfg w (ToProcessVideo (video_request p)) s) = Inr r"
  by (simp add: submit_def video_request_def post_process_video_def start_task_def
      accepted_def now_def Let_def split: prod.splits)

lemma returned_id_Inr: "fst out = Inr r \<Longrightarrow> returned_id out = Some (resp_task_id r)"
  by (simp add: returned_id_def)

lemma stalled_id:
  "new_task_id Video (clock stalled_world k) = lit ''video_20240517_103015_123000''"
  by (simp add: new_task_id_def id_prefix_def strftime_micro_def strftime_seconds_def
      stalled_world_def sample_world_def sample_now_def lit_def)

text \<open>
  Claim C8, as the source has it. The identifier of a submission is its handler's prefix
  followed by the clock reading taken for it, printed to the microsecond. Two accepted
  submissions, to any of the handlers, whose readings are valid dates and differ in some
  field down to the microsecond, are given different identifiers; this covers two
  submissions of the same millisecond read at different microseconds.
\<close>

theorem task_ids_distinct_when_clock_differs:
  assumes "submit cfg w a s = (Inr r, s1)" and "submit cfg w b s' = (Inr r', s1')"
    and "valid_datetime (clock w (ticks s))" and "valid_datetime (clock w (ticks s'))"
    and "clock w (ticks s) \<noteq> clock w (ticks s')"
  shows "resp_task_id r \<noteq> resp_task_id r'"
proof
  assume eq: "resp_task_id r = resp_task_id r'"
  from submit_id [OF assms(1)] obtain k
    where k: "resp_task_id r = new_task_id k (clock w (ticks s))" ..
  from submit_id [OF assms(2)] obtain k'
    where k': "resp_task_id r' = new_task_id k' (clock w (ticks s'))" ..
  from eq k k' have "new_task_id k (clock w (ticks s)) = new_task_id k' (clock w (ticks s'))"
    by simp
  with assms(3,4) have "clock w (ticks s) = clock w (ticks s')" by (rule new_task_id_inj)
  with assms(5) show False by contradiction
qed

text \<open>
  Two submissions one after the other, read at microseconds 123000 and 123003 of the same
  second, get different identifiers.
\<close>

theorem task_ids_distinct_witness:
  "valid_datetime (clock sample_world 0) \<and> valid_datetime (clock sample_world 3)
   \<and> clock sample_world 0 \<noteq> clock sample_world 3
   \<and> microsecond (clock sample_world 0) div 1000 = microsecond (clock sample_world 3) div 1000
   \<and> returned_id (submit sample_config sample_world (ToProcessVideo (video_request demo_video))
        (initial_state sample_disk))
     \<noteq> returned_id (submit sample_config sample_world (ToProcessVideo (video_request silent_video))
        (snd (submit sample_config sample_world (ToProcessVideo (video_request demo_video))
           (initial_state sample_disk))))"
proof -
  let ?s0 = "initial_state sample_disk"
  let ?out1 = "submit sample_config sample_world (ToProcessVideo (video_request demo_video)) ?s0"
  let ?out2 = "submit sample_config sample_world (ToProcessVideo (video_request silent_video))
                 (snd ?out1)"
  obtain r where r: "fst ?out1 = Inr r"
    using submit_video_accepted [of demo_video sample_config sample_world ?s0] by auto
  obtain r' where r': "fst ?out2 = Inr r'"
    using submit_video_accepted [of silent_video sample_config sample_world "snd ?out1"] by auto
  have t0: "ticks ?s0 = 0" by (simp add: initial_state_def)
  have t1: "ticks (snd ?out1) = 3" by (simp add: ticks_submit_video t0)
  have v0: "valid_datetime (clock sample_world 0)" and v3: "valid_datetime (clock sample_world 3)"
    and ne: "clock sample_world 0 \<noteq> clock sample_world 3"
    and ms: "microsecond (clock sample_world 0) div 1000
               = microsecond (clock sample_world 3) div 1000"
    by (simp_all add: valid_datetime_def sample_world_def sample_now_def)
  have e1: "?out1 = (Inr r, snd ?out1)" using r by (simp add: prod_eq_iff)
  have e2: "?out2 = (Inr r', snd ?out2)" using r' by (simp add: prod_eq_iff)
  have "resp_task_id r \<noteq> resp_task_id r'"
    using task_ids_distinct_when_clock_differs [OF e1 e2] v0 v3 ne by (simp add: t0 t1)
  then have "returned_id ?out1 \<noteq> returned_id ?out2"
    by (simp add: returned_id_Inr [OF r] returned_id_Inr [OF r'])
  with v0 v3 ne ms show ?thesis by blast
qed

text \<open>
  Claim C8 as stated fails: when the clock gives the same reading for two submissions, the
  two different submissions are given the same identifier (and the second entry replaces
  the first in the registry).
\<close>

theorem task_ids_collide_counterexample:
  "returned_id (submit sample_config stalled_world (ToProcessVideo (video_request demo_video))
        (initial_state sample_disk)) = Some (lit ''video_20240517_103015_123000'')
   \<and> returned_id (submit sample_config stalled_world (ToProcessVideo (video_request silent_video))
        (snd (submit sample_config stalled_world (ToProcessVideo (video_request demo_video))
           (initial_state sample_disk)))) = Some (lit ''video_20240517_103015_123000'')
   \<and> demo_video \<noteq> silent_video"
  by (simp add: returned_id_video stalled_id) (simp add: demo_video_def silent_video_def lit_def)

subsection \<open>Chunking (ai\_agents.py)\<close>

lemma ceil_div_ceiling: "0 < b \<Longrightarrow> int (ceil_div a b) = \<lceil>real a / real b\<rceil>"
proof -
  assume b: "0 < b"
  define q where "q = (a + b - 1) div b"
  have lo: "q * b \<le> a + b - 1" unfolding q_def by simp
  have "a + b - 1 < q * b + b" unfolding q_def using b
    by (metis add.commute dividend_less_div_times mult.commute)
  then have hi: "a \<le> q * b" using b by simp
  have "real a \<le> real (q * b)" using hi by (rule iffD2 [OF of_nat_le_iff])
  then have 1: "real a / real b \<le> real q" using b by (simp add: field_simps)
  have "q * b < a + b" using lo b by simp
  then have "real (q * b) < real (a + b)" by (rule iffD2 [OF of_nat_less_iff])
  then have 2: "real q - 1 < real a / real b" using b by (simp add: field_simps)
  have "\<lceil>real a / real b\<rceil> = int q"
    by (rule ceiling_unique) (use 1 2 in simp_all)
  then show ?thesis by (simp add: ceil_div_def q_def)
qed

lemma ceil_div_small: "0 < a \<Longrightarrow> a \<le> b \<Longrightarrow> ceil_div a b = 1"
  unfolding ceil_div_def by (rule div_nat_eqI) simp_all

lemma ceil_div_step: "0 < b \<Longrightarrow> b < a \<Longrightarrow> ceil_div a b = Suc (ceil_div (a - b) b)"
proof -
  assume b: "0 < b" and a: "b < a"
  then have "a + b - 1 = (a - b + b - 1) + b" by simp
  then have "(a + b - 1) div b = (a - b + b - 1) div b + 1"
    using b by (metis div_add_self2 less_numeral_extra(3))
  then show ?thesis by (simp add: ceil_div_def)
qed

lemma ceil_div_0: "0 < b \<Longrightarrow> ceil_div 0 b = 0"
  by (simp add: ceil_div_def)

lemma split_chunks_Nil [simp]: "split_chunks n [] = []"
  by (simp add: split_chunks.simps)

lemma split_chunks_length:
  "0 < n \<Longrightarrow> length (split_chunks n xs) = ceil_div (length xs) n"
proof (induction n xs rule: split_chunks.induct)
  case (1 n xs)
  show ?case
  proof (cases "xs = []")
    case True
    with "1.prems" show ?thesis by (simp add: split_chunks.simps ceil_div_0)
  next
    case False
    with "1.prems" have IH: "length (split_chunks n (drop n xs)) = ceil_div (length xs - n) n"
      using "1.IH" by simp
    have L: "0 < length xs" using False by simp
    have unfold: "length (split_chunks n xs) = Suc (length (split_chunks n (drop n xs)))"
      using False "1.prems" by (subst split_chunks.simps) simp
    show ?thesis
    proof (cases "length xs \<le> n")
      case True
      with L "1.prems" show ?thesis
        by (simp add: unfold ceil_div_small)
    next
      case False
      with "1.prems" show ?thesis
        by (simp add: unfold IH ceil_div_step)
    qed
  qed
qed


lemma transcript_chunks_length:
  assumes "0 < n" "transcript \<noteq> []"
  shows "\<exists>chunks. transcript_chunks n transcript = Inr chunks
           \<and> length chunks = ceil_div (length transcript) n"
  using assms by (simp add: transcript_chunks_def split_chunks_length ceil_div_small)

lemma is_chunk_call_simps [simp]:
  "is_chunk_call (GenerateContent model (ChunkPrompt i n info chunk))"
  "\<not> is_chunk_call (GenerateContent model (FinalPrompt summaries))"
  "\<not> is_chunk_call (GenerateContent model (SummaryPrompt info t))"
  "\<not> is_chunk_call (GenerateContent model TestPrompt)"
  by (simp_all add: is_chunk_call_def)

lemma is_combining_call_simps [simp]:
  "is_combining_call (GenerateContent model (FinalPrompt summaries))"
  "\<not> is_combining_call (GenerateContent model (ChunkPrompt i n info chunk))"
  "\<not> is_combining_call (GenerateContent model (SummaryPrompt info t))"
  "\<not> is_combining_call (GenerateContent model TestPrompt)"
  by (simp_all add: is_combining_call_def)

lemma summarize_chunks_Inr:
  "summarize_chunks w model N i info chunks s = (Inr summaries, s') \<Longrightarrow>
   length summaries = length chunks
   \<and> (\<exists>cs. calls s' = calls s @ cs \<and> length cs = length chunks
          \<and> filter is_chunk_call cs = cs \<and> filter is_combining_call cs = [])"
proof (induction chunks arbitrary: i s summaries)
  case Nil
  then show ?case by simp
next
  case (Cons chunk rest)
  let ?p = "ChunkPrompt (i + 1) N info chunk"
  let ?s1 = "record_call (GenerateContent model ?p) s"
  from Cons.prems obtain answer where a: "generate_content w model ?p = Inr answer"
    by (cases "generate_content w model ?p") (simp_all add: Let_def)
  with Cons.prems obtain rs where
    r: "summarize_chunks w model N (i + 1) info rest ?s1 = (Inr rs, s')"
    and s: "summaries = strip answer # rs"
    by (auto simp: Let_def split: prod.splits sum.splits)
  from Cons.IH [OF r] obtain cs where
    "length rs = length rest" "calls s' = calls ?s1 @ cs" "length cs = length rest"
    "filter is_chunk_call cs = cs" "filter is_combining_call cs = []"
    by blast
  then show ?case using s
    by (intro conjI exI [of _ "GenerateContent model ?p # cs"])
      (simp_all add: record_call_def)
qed

lemma summarize_chunks_answers:
  assumes "\<And>p. \<exists>a. generate_content w model p = Inr a"
  shows "\<exists>summaries s'. summarize_chunks w model N i info chunks s = (Inr summaries, s')"
proof (induction chunks arbitrary: i s)
  case Nil
  then show ?case by simp
next
  case (Cons chunk rest)
  obtain a where a: "generate_content w model (ChunkPrompt (i + 1) N info chunk) = Inr a"
    using assms by blast
  from Cons [of "i + 1" "record_call (GenerateContent model (ChunkPrompt (i + 1) N info chunk)) s"]
  obtain rs s' where "summarize_chunks w model N (i + 1) info rest
      (record_call (GenerateContent model (ChunkPrompt (i + 1) N info chunk)) s) = (Inr rs, s')"
    by blast
  with a show ?case by (simp add: Let_def)
qed


lemma ceil_div_pos: "0 < b \<Longrightarrow> 0 < a \<Longrightarrow> 0 < ceil_div a b"
  by (cases "a \<le> b") (simp_all add: ceil_div_small ceil_div_step)

lemma ceil_div_one: "0 < b \<Longrightarrow> 0 < a \<Longrightarrow> ceil_div a b = 1 \<longleftrightarrow> a \<le> b"
  by (cases "a \<le> b") (simp_all add: ceil_div_small ceil_div_step ceil_div_pos)

lemma new_calls_append: "calls s' = calls s @ cs \<Longrightarrow> new_calls s s' = cs"
  by (simp add: new_calls_def)

text \<open>
  Claim C2. \<open>chunked_summary T\<close> is \<open>GoogleAIAgent.generate_summary\<close> with the threshold
  \<open>max_chunk_length\<close> as a parameter (the agent is the instance \<open>T = 30000\<close>). For a
  transcript of \<open>L > 0\<close> characters and a threshold \<open>T > 0\<close>: when the provider answers
  every call the stage returns a summary; and whenever the stage returns a summary, it has
  issued exactly \<open>ceil(L / T)\<close> per-chunk calls, one combining call if \<open>ceil(L / T) > 1\<close> and
  none otherwise, and with a single chunk the summary returned is that chunk's (stripped)
  answer.
\<close>

theorem chunking_law:
  assumes "0 < T" and "transcript \<noteq> []"
  shows "((\<forall>p. \<exists>a. generate_content w model p = Inr a) \<longrightarrow>
            (\<exists>summ. fst (chunked_summary T w model transcript info s) = Inr summ))
       \<and> (\<forall>summ. fst (chunked_summary T w model transcript info s) = Inr summ \<longrightarrow>
            length (filter is_chunk_call
                (new_calls s (snd (chunked_summary T w model transcript info s))))
              = ceil_div (length transcript) T
          \<and> length (filter is_combining_call
                (new_calls s (snd (chunked_summary T w model transcript info s))))
              = (if 1 < ceil_div (length transcript) T then 1 else 0)
          \<and> (ceil_div (length transcript) T = 1 \<longrightarrow>
                (\<exists>a. generate_content w model (ChunkPrompt 1 1 info transcript) = Inr a
                     \<and> summ = strip a)))"
proof -
  let ?n = "ceil_div (length transcript) T"
  let ?out = "chunked_summary T w model transcript info s"
  from transcript_chunks_length [OF assms] obtain chunks where
    ch: "transcript_chunks T transcript = Inr chunks" and len: "length chunks = ?n"
    by blast
  have one: "chunks = [transcript]" if "?n = 1"
  proof -
    from assms have "0 < length transcript" by simp
    from ceil_div_one [OF assms(1) this] that have "length transcript \<le> T" by simp
    with ch show ?thesis by (simp add: transcript_chunks_def)
  qed
  have total: "\<exists>summ. fst ?out = Inr summ" if ans: "\<forall>p. \<exists>a. generate_content w model p = Inr a"
  proof -
    from ans have "\<And>p. \<exists>a. generate_content w model p = Inr a" by blast
    from summarize_chunks_answers [OF this] obtain summaries s1 where
      sc: "summarize_chunks w model (length chunks) 0 info chunks s = (Inr summaries, s1)"
      by blast
    from summarize_chunks_Inr [OF sc] len ceil_div_pos [OF assms(1), of "length transcript"] assms(2)
    have ne: "summaries \<noteq> []" by auto
    obtain a where "generate_content w model (FinalPrompt summaries) = Inr a"
      using ans by blast
    with sc ne show ?thesis
      by (cases summaries) (simp_all add: chunked_summary_def ch Let_def)
  qed
  have counts: "length (filter is_chunk_call (new_calls s (snd ?out))) = ?n
      \<and> length (filter is_combining_call (new_calls s (snd ?out))) = (if 1 < ?n then 1 else 0)
      \<and> (?n = 1 \<longrightarrow> (\<exists>a. generate_content w model (ChunkPrompt 1 1 info transcript) = Inr a
                         \<and> summ = strip a))"
    if ok: "fst ?out = Inr summ" for summ
  proof -
    obtain r s1 where sc: "summarize_chunks w model (length chunks) 0 info chunks s = (r, s1)"
      by (cases "summarize_chunks w model (length chunks) 0 info chunks s") blast
    with ok obtain summaries where r: "r = Inr summaries"
      by (cases r) (simp_all add: chunked_summary_def ch)
    from summarize_chunks_Inr [OF sc [unfolded r]] obtain cs where
      ls: "length summaries = length chunks" and cs: "calls s1 = calls s @ cs"
      and lc: "length cs = length chunks" and fc: "filter is_chunk_call cs = cs"
      and ff: "filter is_combining_call cs = []"
      by blast
    show ?thesis
    proof (cases "1 < length summaries")
      case True
      let ?p = "FinalPrompt summaries"
      from True have out: "snd ?out = record_call (GenerateContent model ?p) s1"
        using sc r by (simp add: chunked_summary_def ch Let_def split: sum.splits)
      have "new_calls s (snd ?out) = cs @ [GenerateContent model ?p]"
        by (rule new_calls_append) (simp add: out record_call_def cs)
      with True ls lc len fc ff show ?thesis by simp
    next
      case False
      with ls len ceil_div_pos [OF assms(1), of "length transcript"] assms(2)
      have n1: "?n = 1" by simp
      from one [OF n1] have chunks: "chunks = [transcript]" .
      from False have out: "snd ?out = s1"
        using sc r by (simp add: chunked_summary_def ch split: list.splits)
      have nc: "new_calls s (snd ?out) = cs"
        by (rule new_calls_append) (simp add: out cs)
      from sc r chunks obtain a where
        a: "generate_content w model (ChunkPrompt 1 1 info transcript) = Inr a"
        and su: "summaries = [strip a]"
        by (auto simp: Let_def split: sum.splits)
      from ok su sc r False have "summ = strip a"
        by (simp add: chunked_summary_def ch)
      with a nc n1 lc len fc ff show ?thesis by simp
    qed
  qed
  from total counts show ?thesis by blast
qed

text \<open>A transcript of ten characters cut at every four: three chunk calls and one combining call.\<close>

theorem chunking_law_witness:
  "(0::nat) < 4 \<and> lit ''hola mundo'' \<noteq> [] \<and> ceil_div (length (lit ''hola mundo'')) 4 = 3
   \<and> (\<exists>summ. fst (chunked_summary 4 sample_world (lit ''gemini-pro'') (lit ''hola mundo'')
                     sample_info (initial_state sample_disk)) = Inr summ)
   \<and> length (filter is_chunk_call (new_calls (initial_state sample_disk)
        (snd (chunked_summary 4 sample_world (lit ''gemini-pro'') (lit ''hola mundo'')
                sample_info (initial_state sample_disk))))) = 3
   \<and> length (filter is_combining_call (new_calls (initial_state sample_disk)
        (snd (chunked_summary 4 sample_world (lit ''gemini-pro'') (lit ''hola mundo'')
                sample_info (initial_state sample_disk))))) = 1"
proof -
  have c: "ceil_div (length (lit ''hola mundo'')) 4 = 3"
    by (simp add: ceil_div_def lit_def)
  have ans: "\<forall>p. \<exists>a. generate_content sample_world (lit ''gemini-pro'') p = Inr a"
    by (simp add: sample_world_def)
  have ne: "lit ''hola mundo'' \<noteq> []" by simp
  have pos: "(0::nat) < 4" by simp
  note law = chunking_law [OF pos ne, of sample_world "lit ''gemini-pro''" sample_info
      "initial_state sample_disk"]
  from law ans obtain summ where
    s: "fst (chunked_summary 4 sample_world (lit ''gemini-pro'') (lit ''hola mundo'')
               sample_info (initial_state sample_disk)) = Inr summ"
    by blast
  with law c show ?thesis by auto
qed

subsection \<open>The stages of the pipeline\<close>

lemma registry_simps [simp]:
  "registry (record_call c s) = registry s"
  "registry (close_clip p s) = registry s"
  "registry (s\<lparr>files := f\<rparr>) = registry s"
  "registry (s\<lparr>open_clips := oc\<rparr>) = registry s"
  "registry (s\<lparr>ticks := k\<rparr>) = registry s"
  "registry (s\<lparr>calls := cs\<rparr>) = registry s"
  by (simp_all add: registry_def record_call_def close_clip_def)

lemma calls_simps [simp]:
  "calls (record_call c s) = calls s @ [c]"
  "calls (close_clip p s) = calls s"
  by (simp_all add: record_call_def close_clip_def)

lemma files_simps [simp]:
  "files (record_call c s) = files s"
  "files (close_clip p s) = files s"
  by (simp_all add: record_call_def close_clip_def)

lemma path_exists_record_call [simp]: "path_exists w (record_call c s) p = path_exists w s p"
  by (simp add: path_exists_def)

lemma open_clip_frame:
  "open_clip w p s = (r, s') \<Longrightarrow> registry s' = registry s \<and> calls s' = calls s \<and> files s' = files s"
  by (auto simp: open_clip_def split: sum.splits)

lemma get_video_info_frame:
  "get_video_info w p s = (r, s') \<Longrightarrow>
   registry s' = registry s \<and> calls s' = calls s @ [GetVideoInfo p] \<and> files s' = files s"
  by (auto simp: get_video_info_def Let_def dest!: open_clip_frame split: prod.splits sum.splits)

lemma extract_audio_frame:
  "extract_audio_from_video w p s = (r, s') \<Longrightarrow>
   registry s' = registry s \<and> calls s' = calls s @ [ExtractAudio p]"
  by (auto simp: extract_audio_from_video_def Let_def dest!: open_clip_frame
      split: prod.splits sum.splits if_splits option.splits)

lemma extract_audio_path:
  "extract_audio_from_video w p s = (Inr a, s') \<Longrightarrow> a = audio_output_path w p"
  by (auto simp: extract_audio_from_video_def Let_def
      split: prod.splits sum.splits if_splits option.splits)

lemma now_frame: "now w s = (d, s') \<Longrightarrow> registry s' = registry s \<and> calls s' = calls s \<and> files s' = files s \<and> d = clock w (ticks s) \<and> ticks s' = Suc (ticks s)"
  by (auto simp: now_def)

lemma transcribe_audio_step_frame:
  "transcribe_audio_step cfg w vp a s = (r, s') \<Longrightarrow>
   registry s' = registry s \<and> calls s' = calls s @ [TranscribeAudio a]"
  by (auto simp: transcribe_audio_step_def Let_def split: if_splits)

lemma single_call_summary_frame:
  "single_call_summary w m t info s = (r, s') \<Longrightarrow>
   registry s' = registry s \<and> calls s' = calls s @ [GenerateContent m (SummaryPrompt info t)]"
  by (auto simp: single_call_summary_def Let_def split: sum.splits)

lemma summarize_chunks_frame:
  "summarize_chunks w m N i info chunks s = (r, s') \<Longrightarrow>
   registry s' = registry s \<and> (\<exists>cs. calls s' = calls s @ cs \<and> (\<forall>c \<in> set cs. \<exists>pr. c = GenerateContent m pr))"
proof (induction chunks arbitrary: i s r s')
  case Nil
  then show ?case by simp
next
  case (Cons chunk rest)
  let ?p = "ChunkPrompt (i + 1) N info chunk"
  let ?s1 = "record_call (GenerateContent m ?p) s"
  show ?case
  proof (cases "generate_content w m ?p")
    case (Inl e)
    with Cons.prems show ?thesis by (auto simp: Let_def)
  next
    case (Inr answer)
    obtain r2 s2 where rec: "summarize_chunks w m N (i + 1) info rest ?s1 = (r2, s2)"
      by (cases "summarize_chunks w m N (i + 1) info rest ?s1") blast
    with Inr Cons.prems have s2: "s' = s2" by (auto simp: Let_def split: sum.splits)
    from Cons.IH [OF rec] obtain cs where
      "registry s2 = registry ?s1" "calls s2 = calls ?s1 @ cs" "\<forall>c \<in> set cs. \<exists>pr. c = GenerateContent m pr"
      by blast
    then show ?thesis unfolding s2
      by (intro conjI exI [of _ "GenerateContent m ?p # cs"]) simp_all
  qed
qed

lemma chunked_summary_frame:
  "chunked_summary n w m t info s = (r, s') \<Longrightarrow>
   registry s' = registry s \<and> (\<exists>cs. calls s' = calls s @ cs \<and> (\<forall>c \<in> set cs. \<exists>pr. c = GenerateContent m pr))"
proof -
  assume a: "chunked_summary n w m t info s = (r, s')"
  show ?thesis
  proof (cases "transcript_chunks n t")
    case (Inl e)
    with a show ?thesis by (auto simp: chunked_summary_def)
  next
    case (Inr chunks)
    obtain r1 s1 where sc: "summarize_chunks w m (length chunks) 0 info chunks s = (r1, s1)"
      by (cases "summarize_chunks w m (length chunks) 0 info chunks s") blast
    from summarize_chunks_frame [OF sc] obtain cs where
      f: "registry s1 = registry s" "calls s1 = calls s @ cs" "\<forall>c \<in> set cs. \<exists>pr. c = GenerateContent m pr"
      by blast
    from a Inr sc have "s' = s1 \<or> (\<exists>summaries. s' = record_call (GenerateContent m (FinalPrompt summaries)) s1)"
      by (auto simp: chunked_summary_def Let_def split: sum.splits if_splits list.splits)
    then show ?thesis
    proof
      assume "s' = s1"
      with f show ?thesis by auto
    next
      assume "\<exists>summaries. s' = record_call (GenerateContent m (FinalPrompt summaries)) s1"
      then obtain summaries where s': "s' = record_call (GenerateContent m (FinalPrompt summaries)) s1" ..
      with f show ?thesis
        by (intro conjI exI [of _ "cs @ [GenerateContent m (FinalPrompt summaries)]"]) auto
    qed
  qed
qed

lemma generate_summary_frame:
  "generate_summary w agent t info s = (r, s') \<Longrightarrow>
   registry s' = registry s
   \<and> (\<exists>cs. calls s' = calls s @ GenerateSummary # cs \<and> (\<forall>c \<in> set cs. \<exists>m pr. c = GenerateContent m pr))"
proof -
  assume a: "generate_summary w agent t info s = (r, s')"
  show ?thesis
  proof (cases agent)
    case (OpenAIAgent m)
    with a have "single_call_summary w m t info (record_call GenerateSummary s) = (r, s')"
      by (simp add: generate_summary_def)
    from single_call_summary_frame [OF this] show ?thesis by auto
  next
    case (AnthropicAgent m)
    with a have "single_call_summary w m t info (record_call GenerateSummary s) = (r, s')"
      by (simp add: generate_summary_def)
    from single_call_summary_frame [OF this] show ?thesis by auto
  next
    case (GoogleAIAgent m)
    with a have "chunked_summary max_chunk_length w m t info (record_call GenerateSummary s) = (r, s')"
      by (simp add: generate_summary_def GoogleAIAgent_generate_summary_def)
    from chunked_summary_frame [OF this] obtain cs where
      "registry s' = registry (record_call GenerateSummary s)"
      "calls s' = calls (record_call GenerateSummary s) @ cs"
      "\<forall>c \<in> set cs. \<exists>pr. c = GenerateContent m pr"
      by blast
    then show ?thesis by (intro conjI exI [of _ cs]) auto
  qed
qed

lemma save_result_frame:
  "save_result cfg w res p s = (r, s') \<Longrightarrow>
   registry s' = registry s \<and> calls s' = calls s @ [SaveResult p]"
  by (auto simp: save_result_def Let_def now_def split: prod.splits option.splits)

lemma process_video_try_cases [case_names NotFound InfoFails TooLarge BadFormat ExtractFails
    TranscribeFails SummaryFails SaveFails Success]:
  fixes cfg w vp p s
  defines "s0 \<equiv> record_call (PathExists p) s"
  obtains
    (NotFound) "\<not> path_exists w s p"
      "process_video_try cfg w vp p s
         = (Inl (FileNotFoundError (lit ''Video no encontrado: '' @ p)), vp, s0)"
  | (InfoFails) e s1 where "path_exists w s p" "get_video_info w p s0 = (Inl e, s1)"
      "process_video_try cfg w vp p s = (Inl e, vp, s1)"
  | (TooLarge) info s1 where "path_exists w s p" "get_video_info w p s0 = (Inr info, s1)"
      "size_mb info > real_of_int (MAX_VIDEO_SIZE_MB cfg)"
      "process_video_try cfg w vp p s = (Inl (size_error w cfg info), vp, s1)"
  | (BadFormat) info s1 where "path_exists w s p" "get_video_info w p s0 = (Inr info, s1)"
      "\<not> size_mb info > real_of_int (MAX_VIDEO_SIZE_MB cfg)"
      "\<not> supported_format w cfg (format info)"
      "process_video_try cfg w vp p s = (Inl (format_error info), vp, s1)"
  | (ExtractFails) info s1 e s2 where "path_exists w s p"
      "get_video_info w p s0 = (Inr info, s1)"
      "\<not> size_mb info > real_of_int (MAX_VIDEO_SIZE_MB cfg)"
      "supported_format w cfg (format info)"
      "extract_audio_from_video w p s1 = (Inl e, s2)"
      "process_video_try cfg w vp p s = (Inl e, vp, s2)"
  | (TranscribeFails) info s1 a s2 e s3 where "path_exists w s p"
      "get_video_info w p s0 = (Inr info, s1)"
      "\<not> size_mb info > real_of_int (MAX_VIDEO_SIZE_MB cfg)"
      "supported_format w cfg (format info)"
      "extract_audio_from_video w p s1 = (Inr a, s2)"
      "transcribe_audio_step cfg w (vp\<lparr>temp_files := temp_files vp @ [a]\<rparr>) a s2 = (Inl e, s3)"
      "process_video_try cfg w vp p s = (Inl e, vp\<lparr>temp_files := temp_files vp @ [a]\<rparr>, s3)"
  | (SummaryFails) info s1 a s2 t s3 e s4 where "path_exists w s p"
      "get_video_info w p s0 = (Inr info, s1)"
      "\<not> size_mb info > real_of_int (MAX_VIDEO_SIZE_MB cfg)"
      "supported_format w cfg (format info)"
      "extract_audio_from_video w p s1 = (Inr a, s2)"
      "transcribe_audio_step cfg w (vp\<lparr>temp_files := temp_files vp @ [a]\<rparr>) a s2 = (Inr t, s3)"
      "generate_summary w (ai_agent vp) t info s3 = (Inl e, s4)"
      "process_video_try cfg w vp p s = (Inl e, vp\<lparr>temp_files := temp_files vp @ [a]\<rparr>, s4)"
  | (SaveFails) info s1 a s2 t s3 su s4 d s5 e s6 r where "path_exists w s p"
      "get_video_info w p s0 = (Inr info, s1)"
      "\<not> size_mb info > real_of_int (MAX_VIDEO_SIZE_MB cfg)"
      "supported_format w cfg (format info)"
      "extract_audio_from_video w p s1 = (Inr a, s2)"
      "transcribe_audio_step cfg w (vp\<lparr>temp_files := temp_files vp @ [a]\<rparr>) a s2 = (Inr t, s3)"
      "generate_summary w (ai_agent vp) t info s3 = (Inr su, s4)"
      "now w s4 = (d, s5)"
      "save_result cfg w r p s5 = (Inl e, s6)"
      "process_video_try cfg w vp p s = (Inl e, vp\<lparr>temp_files := temp_files vp @ [a]\<rparr>, s6)"
  | (Success) info s1 a s2 t s3 su s4 d s5 out s6 r where "path_exists w s p"
      "get_video_info w p s0 = (Inr info, s1)"
      "\<not> size_mb info > real_of_int (MAX_VIDEO_SIZE_MB cfg)"
      "supported_format w cfg (format info)"
      "extract_audio_from_video w p s1 = (Inr a, s2)"
      "transcribe_audio_step cfg w (vp\<lparr>temp_files := temp_files vp @ [a]\<rparr>) a s2 = (Inr t, s3)"
      "generate_summary w (ai_agent vp) t info s3 = (Inr su, s4)"
      "now w s4 = (d, s5)"
      "r = \<lparr>res_video_path = p, res_video_info = info, res_transcript = t, res_summary = su,
            res_processed_at = isoformat d, res_ai_provider = AI_PROVIDER cfg,
            res_transcription_model = TRANSCRIPTION_MODEL cfg\<rparr>"
      "save_result cfg w r p s5 = (Inr out, s6)"
      "process_video_try cfg w vp p s = (Inr r, vp\<lparr>temp_files := temp_files vp @ [a]\<rparr>, s6)"
proof (cases "path_exists w s p")
  case False
  then show ?thesis using NotFound by (simp add: process_video_try_def s0_def)
next
  case ex: True
  obtain r1 s1 where gvi: "get_video_info w p s0 = (r1, s1)"
    by (cases "get_video_info w p s0") blast
  show ?thesis
  proof (cases r1)
    case (Inl e)
    with ex gvi show ?thesis using InfoFails
      by (simp add: process_video_try_def s0_def)
  next
    case (Inr info)
    note gvi = gvi [unfolded Inr]
    show ?thesis
    proof (cases "size_mb info > real_of_int (MAX_VIDEO_SIZE_MB cfg)")
      case True
      with ex gvi show ?thesis using TooLarge by (simp add: process_video_try_def s0_def)
    next
      case sz: False
      show ?thesis
      proof (cases "supported_format w cfg (format info)")
        case False
        with ex gvi sz show ?thesis using BadFormat
          by (simp add: process_video_try_def s0_def)
      next
        case fm: True
        obtain r2 s2 where ea: "extract_audio_from_video w p s1 = (r2, s2)"
          by (cases "extract_audio_from_video w p s1") blast
        show ?thesis
        proof (cases r2)
          case (Inl e)
          with ex gvi sz fm ea show ?thesis using ExtractFails
            by (simp add: process_video_try_def s0_def)
        next
          case (Inr a)
          note ea = ea [unfolded Inr]
          let ?vp1 = "vp\<lparr>temp_files := temp_files vp @ [a]\<rparr>"
          obtain r3 s3 where tr: "transcribe_audio_step cfg w ?vp1 a s2 = (r3, s3)"
            by (cases "transcribe_audio_step cfg w ?vp1 a s2") blast
          show ?thesis
          proof (cases r3)
            case (Inl e)
            with ex gvi sz fm ea tr show ?thesis using TranscribeFails
              by (simp add: process_video_try_def s0_def Let_def)
          next
            case (Inr t)
            note tr = tr [unfolded Inr]
            obtain r4 s4 where gs: "generate_summary w (ai_agent vp) t info s3 = (r4, s4)"
              by (cases "generate_summary w (ai_agent vp) t info s3") blast
            show ?thesis
            proof (cases r4)
              case (Inl e)
              with ex gvi sz fm ea tr gs show ?thesis using SummaryFails
                by (simp add: process_video_try_def s0_def Let_def)
            next
              case (Inr su)
              note gs = gs [unfolded Inr]
              obtain d s5 where nw: "now w s4 = (d, s5)" by (cases "now w s4") blast
              define r where "r = \<lparr>res_video_path = p, res_video_info = info,
                res_transcript = t, res_summary = su, res_processed_at = isoformat d,
                res_ai_provider = AI_PROVIDER cfg,
                res_transcription_model = TRANSCRIPTION_MODEL cfg\<rparr>"
              obtain r6 s6 where sv: "save_result cfg w r p s5 = (r6, s6)"
                by (cases "save_result cfg w r p s5") blast
              show ?thesis
              proof (cases r6)
                case (Inl e)
                with ex gvi sz fm ea tr gs nw sv show ?thesis using SaveFails [of info s1 a s2 t s3 su s4 d s5 r e s6]
                  by (simp add: process_video_try_def s0_def Let_def r_def)
              next
                case (Inr out)
                with ex gvi sz fm ea tr gs nw sv show ?thesis using Success [of info s1 a s2 t s3 su s4 d s5 r out s6]
                  by (simp add: process_video_try_def s0_def Let_def r_def)
              qed
            qed
          qed
        qed
      qed
    qed
  qed
qed

lemma stage_rank_simps [simp]:
  "stage_rank (PathExists p) = 1" "stage_rank (GetVideoInfo p) = 2"
  "stage_rank (ExtractAudio p) = 5" "stage_rank (TranscribeAudio p) = 6"
  "stage_rank GenerateSummary = 7" "stage_rank (GenerateContent m pr) = 7"
  "stage_rank (SaveResult p) = 8" "stage_rank (Remove p) = 9" "stage_rank (Post u pl) = 10"
  by (simp_all add: stage_rank_def)

lemma remove_temp_file_frame:
  "registry (remove_temp_file w f s) = registry s
   \<and> (calls (remove_temp_file w f s) = calls s \<or> calls (remove_temp_file w f s) = calls s @ [Remove f])"
  by (simp add: remove_temp_file_def Let_def split: option.splits)

lemma remove_temp_file_files:
  "files (remove_temp_file w f s) g =
     (if g = f \<and> remove_error w f = None then None else files s g)"
  by (auto simp: remove_temp_file_def Let_def path_exists_def split: option.splits)

lemma cleanup_temp_files_frame:
  "registry (cleanup_temp_files w fs s) = registry s
   \<and> (\<exists>cs. calls (cleanup_temp_files w fs s) = calls s @ cs \<and> (\<forall>c \<in> set cs. stage_rank c = 9))"
proof (induction fs arbitrary: s)
  case Nil
  then show ?case by simp
next
  case (Cons f fs)
  from Cons [of "remove_temp_file w f s"] obtain cs where
    r: "registry (cleanup_temp_files w fs (remove_temp_file w f s)) = registry (remove_temp_file w f s)"
    and c: "calls (cleanup_temp_files w fs (remove_temp_file w f s)) = calls (remove_temp_file w f s) @ cs"
    and k: "\<forall>c \<in> set cs. stage_rank c = 9"
    by blast
  from remove_temp_file_frame [of w f s] show ?case
  proof (elim conjE disjE)
    assume "registry (remove_temp_file w f s) = registry s" "calls (remove_temp_file w f s) = calls s"
    with r c k show ?thesis by (intro conjI exI [of _ cs]) simp_all
  next
    assume "registry (remove_temp_file w f s) = registry s"
      "calls (remove_temp_file w f s) = calls s @ [Remove f]"
    with r c k show ?thesis by (intro conjI exI [of _ "Remove f # cs"]) simp_all
  qed
qed

lemma cleanup_temp_files_files:
  "files (cleanup_temp_files w fs s) g =
     (if g \<in> set fs \<and> remove_error w g = None then None else files s g)"
  by (induction fs arbitrary: s) (auto simp: remove_temp_file_files)

lemma VideoProcessor_cleanup_temp_files_eq:
  "VideoProcessor_cleanup_temp_files w vp s
     = (vp\<lparr>temp_files := []\<rparr>, cleanup_temp_files w (temp_files vp) s)"
  by (simp add: VideoProcessor_cleanup_temp_files_def)

lemma process_video_eq:
  "process_video_try cfg w vp p s = (r, vp1, s1) \<Longrightarrow>
   process_video cfg w vp p s = (r, vp1\<lparr>temp_files := []\<rparr>, cleanup_temp_files w (temp_files vp1) s1)"
  by (simp add: process_video_def VideoProcessor_cleanup_temp_files_eq)

lemma process_video_try_frame:
  assumes "process_video_try cfg w vp p s = (r, vp1, s1)"
  shows "registry s1 = registry s"
  using assms
  by (cases cfg w vp p s rule: process_video_try_cases)
    (auto dest!: get_video_info_frame extract_audio_frame transcribe_audio_step_frame
      generate_summary_frame save_result_frame now_frame)

lemma process_video_try_temp_files:
  assumes "process_video_try cfg w vp p s = (r, vp1, s1)"
  shows "temp_files vp1 = temp_files vp \<or> temp_files vp1 = temp_files vp @ [audio_output_path w p]"
  using assms
  by (cases cfg w vp p s rule: process_video_try_cases)
    (auto dest!: extract_audio_path)

lemma process_video_frame:
  assumes "process_video cfg w vp p s = (r, vp2, s2)"
  shows "registry s2 = registry s" and "temp_files vp2 = []"
proof -
  obtain r1 vp1 s1 where t: "process_video_try cfg w vp p s = (r1, vp1, s1)"
    by (cases "process_video_try cfg w vp p s") auto
  from process_video_eq [OF t] assms process_video_try_frame [OF t] cleanup_temp_files_frame [of w "temp_files vp1" s1]
  show "registry s2 = registry s" and "temp_files vp2 = []" by auto
qed

subsection \<open>The example world, evaluated\<close>

lemma init_sample: "VideoProcessor_init sample_config sample_world s = (Inr sample_processor, s)"
  by (simp add: VideoProcessor_init_def AudioProcessor_init_def create_agent_def sample_config_def
      sample_world_def sample_processor_def Let_def)

lemmas pipeline_defs = process_video_def process_video_try_def get_video_info_def
  extract_audio_from_video_def transcribe_audio_step_def transcribe_with_whisper_def
  generate_summary_def single_call_summary_def save_result_def
  VideoProcessor_cleanup_temp_files_def remove_temp_file_def open_clip_def close_clip_def
  record_call_def now_def path_exists_def supported_format_def

lemma demo_ok:
  "\<exists>r. fst (process_video sample_config sample_world sample_processor demo_video
             (initial_state sample_disk)) = Inr r"
  by (simp add: pipeline_defs splitext_def basename_def path_join_def path_stem_def audio_output_path_def SLASH_def DOT_def sample_processor_def
      initial_state_def sample_disk_def sample_world_def sample_config_def sample_clip_def
      ascii_lower_def demo_video_def silent_video_def lit_def Let_def split: prod.splits)

lemmas path_defs = splitext_def basename_def path_join_def path_stem_def path_suffix_def
  audio_output_path_def output_path_of_def strftime_seconds_def SLASH_def DOT_def

lemmas sample_defs = sample_processor_def initial_state_def sample_disk_def sample_world_def
  sample_config_def sample_clip_def sample_now_def ascii_lower_def demo_video_def
  silent_video_def lit_def

lemma extract_audio_open_clips:
  assumes "video_file_clip w p = Inr video"
    and "extract_audio_from_video w p s = (r, s')"
  shows "(case r of Inr a \<Rightarrow> open_clips s' = remove1 p (open_clips s @ [p])
          | Inl e \<Rightarrow> open_clips s' = open_clips s @ [p])"
  using assms
  by (auto simp: extract_audio_from_video_def open_clip_def close_clip_def record_call_def
      Let_def split: if_splits option.splits)

lemma try_demo_temp_files:
  "temp_files (fst (snd (process_video_try sample_config sample_world sample_processor demo_video
      (initial_state sample_disk)))) = [lit ''/tmp/demo_audio.wav'']"
  by (simp add: pipeline_defs path_defs sample_defs Let_def split: prod.splits)

subsection \<open>Decoder resources (audio\_processor.py)\<close>

text \<open>
  Claim C7 fails on the code: the two \<open>close()\<close> calls of \<open>extract_audio_from_video\<close>
  stand on the normal path only. For a video without an audio stream the call raises the
  no-audio error while the decoder it opened is still open.
\<close>

theorem extract_audio_no_audio_leaves_decoder_open:
  "fst (extract_audio_from_video sample_world silent_video (initial_state sample_disk))
     = Inl (ValueError (lit ''El video no contiene audio''))
   \<and> open_clips (initial_state sample_disk) = []
   \<and> open_clips (snd (extract_audio_from_video sample_world silent_video
        (initial_state sample_disk))) = [silent_video]"
  by (simp add: extract_audio_from_video_def open_clip_def record_call_def Let_def
      sample_world_def sample_clip_def initial_state_def silent_video_def)

subsection \<open>Cleanup of temporary audio files (video\_processor.py)\<close>

text \<open>
  Claim C4, as the source has it. Whatever the body of \<open>process_video\<close> ends with, a result
  or an exception, \<open>process_video\<close> ends with the same after the cleanup of the
  \<open>finally\<close> clause: the processor's list of temporary files is empty, and every file
  registered in it, which is what was registered before and the audio file this run
  extracted, is absent from the disk unless \<open>os.remove\<close> failed on it.
\<close>

theorem cleanup_after_process_video:
  assumes "process_video_try cfg w vp p s = (r, vp1, s1)"
  shows "\<exists>s2. process_video cfg w vp p s = (r, vp1\<lparr>temp_files := []\<rparr>, s2)
           \<and> (\<forall>f \<in> set (temp_files vp1). remove_error w f = None \<longrightarrow> files s2 f = None)
           \<and> (temp_files vp1 = temp_files vp
                \<or> temp_files vp1 = temp_files vp @ [audio_output_path w p])"
  using process_video_eq [OF assms] process_video_try_temp_files [OF assms]
  by (simp add: cleanup_temp_files_files)

text \<open>The successful run on \<open>demo.mp4\<close>: the audio file is registered and gone afterwards.\<close>

theorem cleanup_after_process_video_witness:
  "temp_files (fst (snd (process_video_try sample_config sample_world sample_processor demo_video
      (initial_state sample_disk)))) = [lit ''/tmp/demo_audio.wav'']
   \<and> remove_error sample_world (lit ''/tmp/demo_audio.wav'') = None
   \<and> files (snd (snd (process_video sample_config sample_world sample_processor demo_video
        (initial_state sample_disk)))) (lit ''/tmp/demo_audio.wav'') = None"
proof -
  let ?t = "process_video_try sample_config sample_world sample_processor demo_video
      (initial_state sample_disk)"
  have "?t = (fst ?t, fst (snd ?t), snd (snd ?t))" by simp
  from cleanup_after_process_video [OF this] obtain s2 where
    p: "process_video sample_config sample_world sample_processor demo_video
          (initial_state sample_disk) = (fst ?t, fst (snd ?t)\<lparr>temp_files := []\<rparr>, s2)"
    and f: "\<forall>f \<in> set (temp_files (fst (snd ?t))). remove_error sample_world f = None
              \<longrightarrow> files s2 f = None"
    by blast
  have r: "remove_error sample_world (lit ''/tmp/demo_audio.wav'') = None"
    by (simp add: sample_world_def)
  from f r have "files s2 (lit ''/tmp/demo_audio.wav'') = None"
    by (simp add: try_demo_temp_files)
  with p r show ?thesis by (simp add: try_demo_temp_files)
qed

text \<open>
  Claim C4 as stated fails: where \<open>os.remove\<close> raises, \<open>cleanup_temp_files\<close> logs a warning
  and goes on, and the registered audio file is still on disk when \<open>process_video\<close>
  returns.
\<close>

theorem cleanup_fails_counterexample:
  "temp_files (fst (snd (process_video_try sample_config locked_world sample_processor demo_video
      (initial_state sample_disk)))) = [lit ''/tmp/demo_audio.wav'']
   \<and> files (initial_state sample_disk) (lit ''/tmp/demo_audio.wav'') = None
   \<and> files (snd (snd (process_video sample_config locked_world sample_processor demo_video
        (initial_state sample_disk)))) (lit ''/tmp/demo_audio.wav'') = Some Media"
  by (simp add: pipeline_defs path_defs sample_defs locked_world_def Let_def split: prod.splits)

subsection \<open>Order of the stages (video\_processor.py)\<close>

lemma get_video_info_value: "fst (get_video_info w p s) = fst (get_video_info w p s')"
  by (simp add: get_video_info_def open_clip_def Let_def split: sum.splits)

lemma get_video_info_fst:
  "get_video_info w p (record_call c s) = (r, s1) \<Longrightarrow> fst (get_video_info w p s) = r"
  using get_video_info_value [of w p s "record_call c s"] by simp

lemma process_video_try_log:
  assumes "process_video_try cfg w vp p s = (r, vp1, s1)"
  shows "\<exists>cs. calls s1 = calls s @ cs \<and> sorted (map stage_rank cs)
           \<and> (\<forall>c \<in> set cs. stage_rank c \<le> 8)
           \<and> (\<not> path_exists w s p \<longrightarrow>
                 r = Inl (FileNotFoundError (lit ''Video no encontrado: '' @ p))
                 \<and> (\<forall>c \<in> set cs. stage_rank c = 1))
           \<and> (\<forall>info. path_exists w s p \<and> fst (get_video_info w p s) = Inr info
                  \<and> real_of_int (MAX_VIDEO_SIZE_MB cfg) < size_mb info \<longrightarrow>
                 r = Inl (size_error w cfg info) \<and> (\<forall>c \<in> set cs. stage_rank c \<le> 2))
           \<and> (\<forall>info. path_exists w s p \<and> fst (get_video_info w p s) = Inr info
                  \<and> \<not> real_of_int (MAX_VIDEO_SIZE_MB cfg) < size_mb info
                  \<and> \<not> supported_format w cfg (format info) \<longrightarrow>
                 r = Inl (format_error info) \<and> (\<forall>c \<in> set cs. stage_rank c \<le> 2))
           \<and> (\<forall>res. r = Inr res \<longrightarrow> (\<forall>k \<in> {1, 2, 5, 6, 7, 8}. \<exists>c \<in> set cs. stage_rank c = k))"
proof (cases cfg w vp p s rule: process_video_try_cases)
  case NotFound
  with assms show ?thesis by (intro exI [of _ "[PathExists p]"]) auto
next
  case (InfoFails e s1')
  from get_video_info_frame [OF InfoFails(2)] get_video_info_fst [OF InfoFails(2)] InfoFails assms
  show ?thesis by (intro exI [of _ "[PathExists p, GetVideoInfo p]"]) auto
next
  case (TooLarge info s1')
  from get_video_info_frame [OF TooLarge(2)] get_video_info_fst [OF TooLarge(2)] TooLarge assms
  show ?thesis by (intro exI [of _ "[PathExists p, GetVideoInfo p]"]) auto
next
  case (BadFormat info s1')
  from get_video_info_frame [OF BadFormat(2)] get_video_info_fst [OF BadFormat(2)] BadFormat assms
  show ?thesis by (intro exI [of _ "[PathExists p, GetVideoInfo p]"]) auto
next
  case (ExtractFails info s1' e s2)
  from get_video_info_frame [OF ExtractFails(2)] get_video_info_fst [OF ExtractFails(2)]
    extract_audio_frame [OF ExtractFails(5)] ExtractFails assms
  show ?thesis by (intro exI [of _ "[PathExists p, GetVideoInfo p, ExtractAudio p]"]) auto
next
  case (TranscribeFails info s1' a s2 e s3)
  from get_video_info_frame [OF TranscribeFails(2)] get_video_info_fst [OF TranscribeFails(2)]
    extract_audio_frame [OF TranscribeFails(5)] transcribe_audio_step_frame [OF TranscribeFails(6)]
    TranscribeFails assms
  show ?thesis
    by (intro exI [of _ "[PathExists p, GetVideoInfo p, ExtractAudio p, TranscribeAudio a]"]) auto
next
  case (SummaryFails info s1' a s2 t s3 e s4)
  from generate_summary_frame [OF SummaryFails(7)] obtain gcs where
    g: "calls s4 = calls s3 @ GenerateSummary # gcs" "\<forall>c \<in> set gcs. \<exists>m pr. c = GenerateContent m pr"
    by blast
  then have g7: "\<forall>c \<in> set gcs. stage_rank c = 7" by auto
  then have sg: "sorted (map stage_rank gcs)"
    by (simp add: sorted_wrt_iff_nth_less sorted_iff_nth_mono)
  from get_video_info_frame [OF SummaryFails(2)] get_video_info_fst [OF SummaryFails(2)]
    extract_audio_frame [OF SummaryFails(5)] transcribe_audio_step_frame [OF SummaryFails(6)]
    SummaryFails assms g(1) g7 sg
  show ?thesis
    by (intro exI [of _ "[PathExists p, GetVideoInfo p, ExtractAudio p, TranscribeAudio a,
          GenerateSummary] @ gcs"]) (auto simp: sorted_append)
next
  case (SaveFails info s1' a s2 t s3 su s4 d s5 e s6 r')
  from generate_summary_frame [OF SaveFails(7)] obtain gcs where
    g: "calls s4 = calls s3 @ GenerateSummary # gcs" "\<forall>c \<in> set gcs. \<exists>m pr. c = GenerateContent m pr"
    by blast
  then have g7: "\<forall>c \<in> set gcs. stage_rank c = 7" by auto
  then have sg: "sorted (map stage_rank gcs)"
    by (simp add: sorted_iff_nth_mono)
  from get_video_info_frame [OF SaveFails(2)] get_video_info_fst [OF SaveFails(2)]
    extract_audio_frame [OF SaveFails(5)] transcribe_audio_step_frame [OF SaveFails(6)]
    now_frame [OF SaveFails(8)] save_result_frame [OF SaveFails(9)]
    SaveFails assms g(1) g7 sg
  show ?thesis
    by (intro exI [of _ "[PathExists p, GetVideoInfo p, ExtractAudio p, TranscribeAudio a,
          GenerateSummary] @ gcs @ [SaveResult p]"]) (auto simp: sorted_append)
next
  case (Success info s1' a s2 t s3 su s4 d s5 out s6 r')
  from generate_summary_frame [OF Success(7)] obtain gcs where
    g: "calls s4 = calls s3 @ GenerateSummary # gcs" "\<forall>c \<in> set gcs. \<exists>m pr. c = GenerateContent m pr"
    by blast
  then have g7: "\<forall>c \<in> set gcs. stage_rank c = 7" by auto
  then have sg: "sorted (map stage_rank gcs)"
    by (simp add: sorted_iff_nth_mono)
  from get_video_info_frame [OF Success(2)] get_video_info_fst [OF Success(2)]
    extract_audio_frame [OF Success(5)] transcribe_audio_step_frame [OF Success(6)]
    now_frame [OF Success(8)] save_result_frame [OF Success(10)]
    Success assms g(1) g7 sg
  show ?thesis
    by (intro exI [of _ "[PathExists p, GetVideoInfo p, ExtractAudio p, TranscribeAudio a,
          GenerateSummary] @ gcs @ [SaveResult p]"]) (auto simp: sorted_append)
qed


lemmas sample_defs2 = sample_defs large_world_def notes_file_def missing_video_def

lemma large_info:
  "fst (get_video_info large_world demo_video (initial_state sample_disk))
     = Inr \<lparr>duration = 30, fps = 25, size_wh = (640, 360), format = lit ''mp4'', size_mb = 2000,
            has_audio = True\<rparr>"
  by (simp add: get_video_info_def open_clip_def path_defs sample_defs2 Let_def)

lemma notes_info:
  "fst (get_video_info sample_world notes_file (initial_state sample_disk))
     = Inr \<lparr>duration = 30, fps = 25, size_wh = (640, 360), format = lit ''txt'', size_mb = 5,
            has_audio = True\<rparr>"
  by (simp add: get_video_info_def open_clip_def path_defs sample_defs2 Let_def)

text \<open>
  Claim C6. In every run of \<open>process_video\<close> the calls to the collaborators are logged in
  the order of the stages (existence check, metadata extraction, audio extraction,
  transcription, summarization, persistence, then the cleanup), and a run that returns a
  result has made a call of each stage. Every check is an abort point: a path that does not
  exist fails with the not-found error after the existence check alone; a video whose size
  in megabytes exceeds \<open>MAX_VIDEO_SIZE_MB\<close> fails with the size error, whatever its
  format, and a video within the limit whose extension, lowered, is not among the lowered
  \<open>SUPPORTED_FORMATS\<close> fails with the format error; in both cases nothing later than the
  metadata extraction was called (no audio extraction, transcription, summarization or
  persistence), but for the cleanup of files registered earlier.
\<close>

theorem pipeline_stage_order:
  "calls (snd (snd (process_video cfg w vp p s)))
     = calls s @ new_calls s (snd (snd (process_video cfg w vp p s)))
   \<and> sorted (map stage_rank (new_calls s (snd (snd (process_video cfg w vp p s)))))
   \<and> (\<not> path_exists w s p \<longrightarrow>
         fst (process_video cfg w vp p s)
           = Inl (FileNotFoundError (lit ''Video no encontrado: '' @ p))
         \<and> (\<forall>c \<in> set (new_calls s (snd (snd (process_video cfg w vp p s)))).
               stage_rank c = 1 \<or> stage_rank c = 9))
   \<and> (\<forall>info. path_exists w s p \<and> fst (get_video_info w p s) = Inr info
          \<and> real_of_int (MAX_VIDEO_SIZE_MB cfg) < size_mb info \<longrightarrow>
         fst (process_video cfg w vp p s) = Inl (size_error w cfg info)
         \<and> (\<forall>c \<in> set (new_calls s (snd (snd (process_video cfg w vp p s)))).
               stage_rank c \<le> 2 \<or> stage_rank c = 9))
   \<and> (\<forall>info. path_exists w s p \<and> fst (get_video_info w p s) = Inr info
          \<and> \<not> real_of_int (MAX_VIDEO_SIZE_MB cfg) < size_mb info
          \<and> \<not> supported_format w cfg (format info) \<longrightarrow>
         fst (process_video cfg w vp p s) = Inl (format_error info)
         \<and> (\<forall>c \<in> set (new_calls s (snd (snd (process_video cfg w vp p s)))).
               stage_rank c \<le> 2 \<or> stage_rank c = 9))
   \<and> (\<forall>res. fst (process_video cfg w vp p s) = Inr res \<longrightarrow>
         (\<forall>k \<in> {1, 2, 5, 6, 7, 8}.
            \<exists>c \<in> set (new_calls s (snd (snd (process_video cfg w vp p s)))). stage_rank c = k))"
proof -
  obtain r vp1 s1 where t: "process_video_try cfg w vp p s = (r, vp1, s1)"
    by (cases "process_video_try cfg w vp p s") auto
  note pv = process_video_eq [OF t]
  from cleanup_temp_files_frame [of w "temp_files vp1" s1] obtain rcs where
    rc: "calls (cleanup_temp_files w (temp_files vp1) s1) = calls s1 @ rcs"
    and r9: "\<forall>c \<in> set rcs. stage_rank c = 9"
    by blast
  from process_video_try_log [OF t] obtain cs where
    c: "calls s1 = calls s @ cs" and srt: "sorted (map stage_rank cs)"
    and le8: "\<forall>c \<in> set cs. stage_rank c \<le> 8"
    and nf: "\<not> path_exists w s p \<longrightarrow>
                 r = Inl (FileNotFoundError (lit ''Video no encontrado: '' @ p))
                 \<and> (\<forall>c \<in> set cs. stage_rank c = 1)"
    and big: "\<forall>info. path_exists w s p \<and> fst (get_video_info w p s) = Inr info
                  \<and> real_of_int (MAX_VIDEO_SIZE_MB cfg) < size_mb info \<longrightarrow>
                 r = Inl (size_error w cfg info) \<and> (\<forall>c \<in> set cs. stage_rank c \<le> 2)"
    and fmt: "\<forall>info. path_exists w s p \<and> fst (get_video_info w p s) = Inr info
                  \<and> \<not> real_of_int (MAX_VIDEO_SIZE_MB cfg) < size_mb info
                  \<and> \<not> supported_format w cfg (format info) \<longrightarrow>
                 r = Inl (format_error info) \<and> (\<forall>c \<in> set cs. stage_rank c \<le> 2)"
    and ok: "\<forall>res. r = Inr res \<longrightarrow> (\<forall>k \<in> {1, 2, 5, 6, 7, 8}. \<exists>c \<in> set cs. stage_rank c = k)"
    by blast
  have all: "calls (snd (snd (process_video cfg w vp p s))) = calls s @ (cs @ rcs)"
    by (simp add: pv rc c)
  then have new: "new_calls s (snd (snd (process_video cfg w vp p s))) = cs @ rcs"
    by (simp add: new_calls_def)
  have f: "fst (process_video cfg w vp p s) = r" by (simp add: pv)
  have 1: "sorted (map stage_rank (cs @ rcs))"
  proof -
    have "sorted (map stage_rank rcs)" using r9 by (simp add: sorted_iff_nth_mono)
    moreover have "\<forall>x \<in> set cs. \<forall>y \<in> set rcs. stage_rank x \<le> stage_rank y"
      using le8 r9 by fastforce
    ultimately show ?thesis using srt by (simp add: sorted_append)
  qed
  show ?thesis unfolding new f
    using all 1 nf big fmt ok r9 by (intro conjI) auto
qed

text \<open>
  An oversized video, a text file, a missing path, and the stages of a successful run in
  the example world.
\<close>

theorem pipeline_stage_order_witness:
  "path_exists large_world (initial_state sample_disk) demo_video
   \<and> real_of_int (MAX_VIDEO_SIZE_MB sample_config) < 2000
   \<and> fst (process_video sample_config large_world sample_processor demo_video
        (initial_state sample_disk))
       = Inl (ValueError (lit ''Video demasiado grande: 5.00MB > 1000MB''))
   \<and> new_calls (initial_state sample_disk)
        (snd (snd (process_video sample_config large_world sample_processor demo_video
           (initial_state sample_disk))))
       = [PathExists demo_video, GetVideoInfo demo_video]
   \<and> \<not> supported_format sample_world sample_config (lit ''txt'')
   \<and> fst (process_video sample_config sample_world sample_processor notes_file
        (initial_state sample_disk))
       = Inl (ValueError (lit ''Formato no soportado: txt''))
   \<and> \<not> path_exists sample_world (initial_state sample_disk) missing_video
   \<and> fst (process_video sample_config sample_world sample_processor missing_video
        (initial_state sample_disk))
       = Inl (FileNotFoundError (lit ''Video no encontrado: /videos/missing.mp4''))
   \<and> map stage_rank (new_calls (initial_state sample_disk)
        (snd (snd (process_video sample_config sample_world sample_processor demo_video
           (initial_state sample_disk)))))
       = [1, 2, 5, 6, 7, 7, 8, 9]"
proof -
  let ?s0 = "initial_state sample_disk"
  let ?big = "\<lparr>duration = 30, fps = 25, size_wh = (640, 360), format = lit ''mp4'',
               size_mb = 2000, has_audio = True\<rparr>"
  let ?tx = "\<lparr>duration = 30, fps = 25, size_wh = (640, 360), format = lit ''txt'',
               size_mb = 5, has_audio = True\<rparr>"
  have e1: "path_exists large_world ?s0 demo_video"
    by (simp add: path_exists_def sample_defs2)
  have m: "real_of_int (MAX_VIDEO_SIZE_MB sample_config) < 2000"
    by (simp add: sample_config_def)
  from pipeline_stage_order [of sample_config large_world sample_processor demo_video ?s0]
  have "fst (process_video sample_config large_world sample_processor demo_video ?s0)
          = Inl (size_error large_world sample_config ?big)"
    using e1 large_info m by simp
  moreover have "size_error large_world sample_config ?big
      = ValueError (lit ''Video demasiado grande: 5.00MB > 1000MB'')"
    by (simp add: size_error_def str_int_def str_nat.simps sample_defs2)
  ultimately have big: "fst (process_video sample_config large_world sample_processor demo_video ?s0)
      = Inl (ValueError (lit ''Video demasiado grande: 5.00MB > 1000MB''))" by simp
  have calls_big: "new_calls ?s0 (snd (snd (process_video sample_config large_world
      sample_processor demo_video ?s0))) = [PathExists demo_video, GetVideoInfo demo_video]"
    by (simp add: new_calls_def pipeline_defs path_defs sample_defs2 Let_def split: prod.splits)
  have e2: "path_exists sample_world ?s0 notes_file"
    by (simp add: path_exists_def sample_defs2)
  have ns: "\<not> supported_format sample_world sample_config (lit ''txt'')"
    by (simp add: supported_format_def sample_defs2)
  from pipeline_stage_order [of sample_config sample_world sample_processor notes_file ?s0]
  have "fst (process_video sample_config sample_world sample_processor notes_file ?s0)
          = Inl (format_error ?tx)"
    using e2 notes_info ns by (simp add: sample_config_def)
  then have nts: "fst (process_video sample_config sample_world sample_processor notes_file ?s0)
      = Inl (ValueError (lit ''Formato no soportado: txt''))"
    by (simp add: format_error_def lit_def)
  have e3: "\<not> path_exists sample_world ?s0 missing_video"
    by (simp add: path_exists_def sample_defs2)
  from pipeline_stage_order [of sample_config sample_world sample_processor missing_video ?s0] e3
  have "fst (process_video sample_config sample_world sample_processor missing_video ?s0)
      = Inl (FileNotFoundError (lit ''Video no encontrado: '' @ missing_video))" by simp
  then have miss: "fst (process_video sample_config sample_world sample_processor missing_video ?s0)
      = Inl (FileNotFoundError (lit ''Video no encontrado: /videos/missing.mp4''))"
    by (simp add: missing_video_def lit_def)
  have ok: "map stage_rank (new_calls ?s0 (snd (snd (process_video sample_config sample_world
      sample_processor demo_video ?s0)))) = [1, 2, 5, 6, 7, 7, 8, 9]"
    by (simp add: new_calls_def pipeline_defs path_defs sample_defs Let_def split: prod.splits)
  from e1 m big calls_big ns nts e3 miss ok show ?thesis by blast
qed

subsection \<open>The background workers (main.py)\<close>

lemma registry_tasks: "registry s' = registry s \<Longrightarrow> processing_tasks s' = processing_tasks s"
  by (simp add: registry_def)

lemma GoogleAIAgent_init_frame:
  "GoogleAIAgent_init cfg w s = (r, s') \<Longrightarrow> registry s' = registry s"
  by (auto simp: GoogleAIAgent_init_def Let_def split: sum.splits if_splits)

lemma create_agent_frame:
  "create_agent cfg w s = (r, s') \<Longrightarrow> registry s' = registry s"
  by (auto simp: create_agent_def Let_def dest: GoogleAIAgent_init_frame
      split: option.splits if_splits)

lemma VideoProcessor_init_frame:
  "VideoProcessor_init cfg w s = (r, s') \<Longrightarrow> registry s' = registry s"
  by (auto simp: VideoProcessor_init_def dest: create_agent_frame
      split: sum.splits prod.splits)

lemma send_callback_frame: "registry (send_callback w url tid st rs errs s) = registry s"
  by (simp add: send_callback_def now_def split: option.splits)

lemma notify_frame: "registry (notify w cb tid st rs errs s) = registry s"
  by (simp add: notify_def send_callback_frame split: option.splits)

lemma process_each_frame:
  "process_each cfg w vp videos s = (rs, logged, vp2, s2) \<Longrightarrow>
   registry s2 = registry s \<and> length rs + length logged = length videos"
proof (induction videos arbitrary: vp s rs logged vp2 s2)
  case Nil
  then show ?case by simp
next
  case (Cons v videos)
  obtain r vp1 s1 where pv: "process_video cfg w vp v s = (r, vp1, s1)"
    by (cases "process_video cfg w vp v s") auto
  obtain rs' lg' vp' s' where pe: "process_each cfg w vp1 videos s1 = (rs', lg', vp', s')"
    by (cases "process_each cfg w vp1 videos s1") auto
  from Cons.IH [OF pe] process_video_frame(1) [OF pv]
  have "registry s' = registry s" "length rs' + length lg' = length videos" by simp_all
  with Cons.prems pv pe show ?case by (cases r) auto
qed

lemma mark_error_registered:
  "processing_tasks s tid = Some t \<Longrightarrow>
   mark_error w tid e s
     = (Inr (), s\<lparr>ticks := Suc (ticks s),
                   processing_tasks := (processing_tasks s)
                     (tid \<mapsto> t\<lparr>task_status := Error, task_errors := [str_exn e],
                                completed_at := Some (isoformat (clock w (ticks s)))\<rparr>)\<rparr>)"
  by (simp add: mark_error_def now_def)

lemma mark_completed_registered:
  "processing_tasks s tid = Some t \<Longrightarrow>
   mark_completed w tid rs s
     = (Inr (), s\<lparr>ticks := Suc (ticks s),
                   processing_tasks := (processing_tasks s)
                     (tid \<mapsto> t\<lparr>task_status := Completed, task_results := rs,
                                completed_at := Some (isoformat (clock w (ticks s)))\<rparr>)\<rparr>)"
  by (simp add: mark_completed_def now_def)

lemma notify_tasks [simp]:
  "processing_tasks (notify w cb tid st rs errs s) = processing_tasks s"
  using notify_frame [of w cb tid st rs errs s] by (simp add: registry_def)

lemma task_try_init_fails:
  "VideoProcessor_init cfg w s = (Inl e, s2) \<Longrightarrow>
   process_video_task_try cfg w task_id video_path callback_url s = (Inl e, s2)"
  by (simp add: process_video_task_try_def)

lemma task_try_video_fails:
  "VideoProcessor_init cfg w s = (Inr vp, s1) \<Longrightarrow>
   process_video cfg w vp video_path s1 = (Inl e, vp2, s2) \<Longrightarrow>
   process_video_task_try cfg w task_id video_path callback_url s = (Inl e, s2)"
  by (simp add: process_video_task_try_def)

lemma task_handler:
  assumes "process_video_task_try cfg w task_id video_path callback_url s = (Inl e, s2)"
    and "processing_tasks s2 task_id = Some t"
  shows "\<exists>s'. process_video_task cfg w task_id video_path callback_url s = (Inr (), s')
           \<and> processing_tasks s' task_id
               = Some (t\<lparr>task_status := Error, task_errors := [str_exn e],
                          completed_at := Some (isoformat (clock w (ticks s2)))\<rparr>)"
  by (simp add: process_video_task_def assms(1) mark_error_registered [OF assms(2)])

lemma isoformat_sample:
  "isoformat (clock sample_world k) = lit ''2024-05-17T10:30:15.'' @ zpad 6 (123000 + k)"
  by (simp add: isoformat_def sample_world_def sample_now_def lit_def)

lemma missing_submitted_eq:
  "missing_submitted =
     (initial_state sample_disk)
       \<lparr>ticks := 3,
        processing_tasks := [lit ''video_20240517_103015_123000''
                               \<mapsto> new_task (lit ''2024-05-17T10:30:15.123001'')],
        background_tasks := [VideoTask (lit ''video_20240517_103015_123000'') missing_video None]\<rparr>"
  by (simp add: missing_submitted_def submit_def post_process_video_def start_task_def
      accepted_def now_def video_request_def missing_video_def Let_def initial_state_def
      new_task_id_def id_prefix_def strftime_micro_def strftime_seconds_def isoformat_def
      sample_world_def sample_now_def lit_def)

subsection \<open>The registry in a run of the service (main.py)\<close>

lemma isoformat_nonempty: "isoformat d \<noteq> []"
proof
  assume "isoformat d = []"
  then have "length (isoformat d) = 0" by simp
  then show False by (simp add: isoformat_def)
qed

lemma settled_new_task: "settled (new_task started)"
  by (simp add: settled_def new_task_def)

lemma settled_completed:
  "settled (t\<lparr>task_status := Completed, task_results := rs, completed_at := Some (isoformat d)\<rparr>)"
  by (simp add: settled_def isoformat_nonempty)

lemma settled_error:
  "settled (t\<lparr>task_status := Error, task_errors := es, completed_at := Some (isoformat d)\<rparr>)"
  by (simp add: settled_def isoformat_nonempty)

lemma registry_ok_initial: "registry_ok (initial_state disk)"
  by (simp add: registry_ok_def initial_state_def)

lemma registry_ok_update:
  assumes "registry_ok s" and "settled t"
    and "processing_tasks s' = (processing_tasks s)(tid \<mapsto> t)"
    and "set (background_tasks s') \<subseteq> insert j (set (background_tasks s))"
    and "job_id j = tid"
  shows "registry_ok s'"
proof -
  have "\<forall>j \<in> set (background_tasks s'). processing_tasks s' (job_id j) \<noteq> None"
    using assms(1,3,4,5) by (auto simp: registry_ok_def)
  moreover have "\<forall>u \<in> ran (processing_tasks s'). settled u"
  proof
    fix u assume "u \<in> ran (processing_tasks s')"
    then obtain k where "processing_tasks s' k = Some u" by (auto simp: ran_def)
    with assms(3) have "u = t \<or> processing_tasks s k = Some u" by (auto split: if_splits)
    with assms(1,2) show "settled u" by (auto simp: registry_ok_def ran_def)
  qed
  ultimately show ?thesis by (simp add: registry_ok_def)
qed

lemma registry_ok_same:
  assumes "registry_ok s" and "processing_tasks s' = processing_tasks s"
    and "set (background_tasks s') \<subseteq> set (background_tasks s)"
  shows "registry_ok s'"
  using assms by (auto simp: registry_ok_def)

lemma start_task_effect:
  "start_task w k mk s = (tid, s') \<Longrightarrow>
   processing_tasks s' = (processing_tasks s)(tid \<mapsto> new_task (isoformat (clock w (Suc (ticks s)))))
   \<and> background_tasks s' = background_tasks s @ [mk tid]"
  by (auto simp: start_task_def now_def Let_def)

lemma accepted_effect:
  "accepted w tid msg s = (r, s') \<Longrightarrow>
   processing_tasks s' = processing_tasks s \<and> background_tasks s' = background_tasks s"
  by (auto simp: accepted_def now_def Let_def)

lemma start_task_ok:
  assumes "registry_ok s" and "start_task w k mk s = (tid, s1)" and "job_id (mk tid) = tid"
  shows "registry_ok (snd (accepted w tid msg s1))"
proof -
  obtain r s' where a: "accepted w tid msg s1 = (r, s')" by (cases "accepted w tid msg s1")
  from start_task_effect [OF assms(2)] accepted_effect [OF a]
  have t: "processing_tasks s' = (processing_tasks s)(tid \<mapsto> new_task (isoformat (clock w (Suc (ticks s)))))"
    and b: "set (background_tasks s') \<subseteq> insert (mk tid) (set (background_tasks s))"
    by auto
  from registry_ok_update [OF assms(1) settled_new_task t b assms(3)] a show ?thesis by simp
qed

lemma submit_ok:
  assumes "registry_ok s"
  shows "registry_ok (snd (submit cfg w sub s))"
proof (cases sub)
  case (ToProcessVideo request)
  show ?thesis
    using assms
    by (auto simp: ToProcessVideo submit_def post_process_video_def job_id_def
        split: option.splits prod.splits intro: start_task_ok)
next
  case (ToProcessFolder request)
  show ?thesis
    using assms
    by (auto simp: ToProcessFolder submit_def post_process_folder_def job_id_def Let_def
        split: option.splits prod.splits intro: start_task_ok)
next
  case (ToWebhook request)
  show ?thesis
    using assms
    by (auto simp: ToWebhook submit_def webhook_process_def job_id_def Let_def
        split: option.splits prod.splits intro: start_task_ok)
qed

lemma get_task_status_effect:
  "get_task_status w tid s = (r, s') \<Longrightarrow>
   processing_tasks s' = processing_tasks s \<and> background_tasks s' = background_tasks s"
  by (auto simp: get_task_status_def now_def split: option.splits if_splits)

lemma registry_queue: "registry s' = registry s \<Longrightarrow> background_tasks s' = background_tasks s"
  by (simp add: registry_def)

lemma notify_queue [simp]:
  "background_tasks (notify w cb tid st rs errs s) = background_tasks s"
  using notify_frame [of w cb tid st rs errs s] by (simp add: registry_def)

lemma process_folder_frame:
  "process_folder cfg w vp folder s = (r, vp', s') \<Longrightarrow> registry s' = registry s"
  by (auto simp: process_folder_def Let_def dest: process_each_frame
      split: sum.splits prod.splits)

lemma mark_completed_effect:
  assumes "registry s2 = registry s" and "mark_completed w tid rs s2 = (r, s3)"
  shows "background_tasks s3 = background_tasks s
         \<and> (case processing_tasks s tid of
               None \<Rightarrow> r = Inl (KeyError tid) \<and> processing_tasks s3 = processing_tasks s
             | Some t \<Rightarrow> r = Inr ()
                 \<and> processing_tasks s3
                     = (processing_tasks s)
                         (tid \<mapsto> t\<lparr>task_status := Completed, task_results := rs,
                                    completed_at := Some (isoformat (clock w (ticks s2)))\<rparr>))"
  using assms(2) registry_tasks [OF assms(1)] registry_queue [OF assms(1)]
  by (auto simp: mark_completed_def now_def split: option.splits)

lemma mark_error_effect:
  assumes "registry s2 = registry s" and "mark_error w tid e s2 = (r, s3)"
  shows "background_tasks s3 = background_tasks s
         \<and> (case processing_tasks s tid of
               None \<Rightarrow> r = Inl (KeyError tid) \<and> processing_tasks s3 = processing_tasks s
             | Some t \<Rightarrow> r = Inr ()
                 \<and> processing_tasks s3
                     = (processing_tasks s)
                         (tid \<mapsto> t\<lparr>task_status := Error, task_errors := [str_exn e],
                                    completed_at := Some (isoformat (clock w (ticks s2)))\<rparr>))"
  using assms(2) registry_tasks [OF assms(1)] registry_queue [OF assms(1)]
  by (auto simp: mark_error_def now_def split: option.splits)

lemma worker_effect_completed:
  assumes "registry s2 = registry s" and "mark_completed w tid rs s2 = (Inr u, s3)"
  shows "worker_effect tid s (Inr (), notify w cb tid st rs' errs s3)"
proof (cases "processing_tasks s tid")
  case None
  with mark_completed_effect [OF assms] show ?thesis by simp
next
  case (Some t)
  let ?t = "t\<lparr>task_status := Completed, task_results := rs,
               completed_at := Some (isoformat (clock w (ticks s2)))\<rparr>"
  from mark_completed_effect [OF assms] Some
  have "background_tasks s3 = background_tasks s"
    and "processing_tasks s3 = (processing_tasks s)(tid \<mapsto> ?t)" by simp_all
  moreover have "settled ?t" by (rule settled_completed)
  moreover have "task_status ?t \<noteq> Processing" by simp
  ultimately show ?thesis unfolding worker_effect_def using Some by auto
qed

lemma worker_effect_error:
  assumes "registry s2 = registry s"
  shows "worker_effect tid s
           (case mark_error w tid e s2 of
              (Inl e2, s3) \<Rightarrow> (Inl e2, s3)
            | (Inr u, s3) \<Rightarrow> (Inr (), notify w cb tid st rs' errs s3))"
proof -
  obtain r s3 where m: "mark_error w tid e s2 = (r, s3)" by (cases "mark_error w tid e s2")
  show ?thesis
  proof (cases "processing_tasks s tid")
    case None
    with mark_error_effect [OF assms m] show ?thesis
      by (simp add: m worker_effect_def)
  next
    case (Some t)
    let ?t = "t\<lparr>task_status := Error, task_errors := [str_exn e],
                 completed_at := Some (isoformat (clock w (ticks s2)))\<rparr>"
    from mark_error_effect [OF assms m] Some
    have "background_tasks s3 = background_tasks s" and "r = Inr ()"
      and "processing_tasks s3 = (processing_tasks s)(tid \<mapsto> ?t)" by simp_all
    moreover have "settled ?t" by (rule settled_error)
    moreover have "task_status ?t \<noteq> Processing" by simp
    ultimately show ?thesis unfolding worker_effect_def using Some by (auto simp: m)
  qed
qed

lemma mark_completed_Inl: "mark_completed w tid rs s = (Inl e, s') \<Longrightarrow> s' = s"
  by (auto simp: mark_completed_def now_def split: option.splits)

lemma process_video_task_try_Inl:
  assumes "process_video_task_try cfg w tid p cb s = (Inl e, s')"
  shows "registry s' = registry s"
proof -
  obtain i s0 where i: "VideoProcessor_init cfg w s = (i, s0)"
    by (cases "VideoProcessor_init cfg w s")
  note r0 = VideoProcessor_init_frame [OF i]
  show ?thesis
  proof (cases i)
    case (Inl e0)
    with assms i r0 show ?thesis by (simp add: process_video_task_try_def)
  next
    case (Inr vp)
    obtain r vp2 s2 where p: "process_video cfg w vp p s0 = (r, vp2, s2)"
      by (cases "process_video cfg w vp p s0")
    from process_video_frame(1) [OF p] r0 have r2: "registry s2 = registry s" by simp
    show ?thesis
    proof (cases r)
      case (Inl e1)
      with assms i Inr p r2 show ?thesis by (simp add: process_video_task_try_def)
    next
      case res: (Inr res)
      obtain m s3 where m: "mark_completed w tid [res] s2 = (m, s3)"
        by (cases "mark_completed w tid [res] s2")
      with assms i Inr p res have "\<exists>e3. m = Inl e3 \<and> s' = s3"
        by (cases m) (simp_all add: process_video_task_try_def)
      with m mark_completed_Inl r2 show ?thesis by blast
    qed
  qed
qed

lemma process_video_task_effect:
  "worker_effect tid s (process_video_task cfg w tid p cb s)"
proof -
  obtain r s1 where t: "process_video_task_try cfg w tid p cb s = (r, s1)"
    by (cases "process_video_task_try cfg w tid p cb s")
  show ?thesis
  proof (cases r)
    case (Inl e)
    from t Inl have "registry s1 = registry s" by (auto dest: process_video_task_try_Inl)
    from worker_effect_error [OF this] show ?thesis
      by (simp add: process_video_task_def t Inl)
  next
    case (Inr u)
    with t obtain vp s0 res vp2 s2 s3 where
      "VideoProcessor_init cfg w s = (Inr vp, s0)"
      "process_video cfg w vp p s0 = (Inr res, vp2, s2)"
      "mark_completed w tid [res] s2 = (Inr (), s3)"
      "s1 = notify w cb tid Completed [res] [] s3"
      by (auto simp: process_video_task_try_def split: sum.splits prod.splits)
    moreover from this have "registry s2 = registry s"
      using VideoProcessor_init_frame process_video_frame(1) by metis
    ultimately show ?thesis
      using worker_effect_completed [of s2 s w tid "[res]" "()" s3 cb Completed "[res]" "[]"]
      by (simp add: process_video_task_def t Inr)
  qed
qed

lemma process_folder_task_try_Inl:
  assumes "process_folder_task_try cfg w tid p cb s = (Inl e, s')"
  shows "registry s' = registry s"
proof -
  obtain i s0 where i: "VideoProcessor_init cfg w s = (i, s0)"
    by (cases "VideoProcessor_init cfg w s")
  note r0 = VideoProcessor_init_frame [OF i]
  show ?thesis
  proof (cases i)
    case (Inl e0)
    with assms i r0 show ?thesis by (simp add: process_folder_task_try_def)
  next
    case (Inr vp)
    obtain r vp2 s2 where p: "process_folder cfg w vp (Some p) s0 = (r, vp2, s2)"
      by (cases "process_folder cfg w vp (Some p) s0")
    from process_folder_frame [OF p] r0 have r2: "registry s2 = registry s" by simp
    show ?thesis
    proof (cases r)
      case (Inl e1)
      with assms i Inr p r2 show ?thesis by (simp add: process_folder_task_try_def)
    next
      case res: (Inr res)
      obtain m s3 where m: "mark_completed w tid res s2 = (m, s3)"
        by (cases "mark_completed w tid res s2")
      with assms i Inr p res have "\<exists>e3. m = Inl e3 \<and> s' = s3"
        by (cases m) (simp_all add: process_folder_task_try_def)
      with m mark_completed_Inl r2 show ?thesis by blast
    qed
  qed
qed

lemma process_folder_task_effect:
  "worker_effect tid s (process_folder_task cfg w tid p cb s)"
proof -
  obtain r s1 where t: "process_folder_task_try cfg w tid p cb s = (r, s1)"
    by (cases "process_folder_task_try cfg w tid p cb s")
  show ?thesis
  proof (cases r)
    case (Inl e)
    from t Inl have "registry s1 = registry s" by (auto dest: process_folder_task_try_Inl)
    from worker_effect_error [OF this] show ?thesis
      by (simp add: process_folder_task_def t Inl)
  next
    case (Inr u)
    with t obtain vp s0 res vp2 s2 s3 where
      "VideoProcessor_init cfg w s = (Inr vp, s0)"
      "process_folder cfg w vp (Some p) s0 = (Inr res, vp2, s2)"
      "mark_completed w tid res s2 = (Inr (), s3)"
      "s1 = notify w cb tid Completed res [] s3"
      by (auto simp: process_folder_task_try_def split: sum.splits prod.splits)
    moreover from this have "registry s2 = registry s"
      using VideoProcessor_init_frame process_folder_frame by metis
    ultimately show ?thesis
      using worker_effect_completed [of s2 s w tid res "()" s3 cb Completed res "[]"]
      by (simp add: process_folder_task_def t Inr)
  qed
qed

lemma run_job_effect: "worker_effect (job_id j) s (run_job cfg w j s)"
  by (cases j) (simp_all add: run_job_def job_id_def process_video_task_effect
      process_folder_task_effect)

lemma worker_effect_ok:
  assumes "registry_ok s0" and "worker_effect tid s0 out"
  shows "registry_ok (snd out)"
proof (cases "processing_tasks s0 tid")
  case None
  with assms(2) have "processing_tasks (snd out) = processing_tasks s0"
    "set (background_tasks (snd out)) \<subseteq> set (background_tasks s0)"
    by (simp_all add: worker_effect_def)
  with assms(1) show ?thesis by (rule registry_ok_same)
next
  case (Some t)
  with assms(2) obtain t' where "settled t'"
    "processing_tasks (snd out) = (processing_tasks s0)(tid \<mapsto> t')"
    "background_tasks (snd out) = background_tasks s0"
    by (auto simp: worker_effect_def)
  then show ?thesis
    using assms(1) Some by (auto simp: registry_ok_def ran_def split: if_splits)
qed

lemma step_ok:
  assumes "registry_ok s"
  shows "registry_ok (step cfg w ev s)"
proof (cases ev)
  case (Submit sub)
  with submit_ok [OF assms] show ?thesis by (simp add: step_def)
next
  case (GetTask tid)
  obtain r s' where g: "get_task_status w tid s = (r, s')" by (cases "get_task_status w tid s")
  from get_task_status_effect [OF g] assms have "registry_ok s'"
    by (auto intro: registry_ok_same)
  with g GetTask show ?thesis by (simp add: step_def)
next
  case (RunBackground n)
  show ?thesis
  proof (cases "n < length (background_tasks s)")
    case False
    with RunBackground assms show ?thesis by (simp add: step_def)
  next
    case True
    let ?s0 = "s\<lparr>background_tasks := take n (background_tasks s) @ drop (Suc n) (background_tasks s)\<rparr>"
    have "set (background_tasks ?s0) \<subseteq> set (background_tasks s)"
      by (auto dest: in_set_takeD in_set_dropD)
    moreover have "processing_tasks ?s0 = processing_tasks s" by simp
    ultimately have "registry_ok ?s0" using assms by (blast intro: registry_ok_same)
    from worker_effect_ok [OF this run_job_effect] RunBackground True show ?thesis
      by (simp add: step_def)
  qed
qed

lemma run_ok: "registry_ok s \<Longrightarrow> registry_ok (run cfg w evs s)"
  by (induction evs arbitrary: s) (simp_all add: step_ok)

lemma reachable_ok: "registry_ok (run cfg w evs (initial_state disk))"
  by (simp add: run_ok registry_ok_initial)

lemma scheduled_registered:
  assumes "registry_ok s" and "n < length (background_tasks s)"
  shows "\<exists>t. processing_tasks s (job_id (background_tasks s ! n)) = Some t"
proof -
  from assms(2) have "background_tasks s ! n \<in> set (background_tasks s)" by simp
  with assms(1) show ?thesis by (auto simp: registry_ok_def)
qed

lemma process_video_task_completed:
  assumes "VideoProcessor_init cfg w s = (Inr vp, s1)"
    and "process_video cfg w vp path s1 = (Inr r, vp2, s2)"
    and "processing_tasks s tid = Some t"
  shows "process_video_task cfg w tid path None s
         = (Inr (), s2\<lparr>ticks := Suc (ticks s2),
                        processing_tasks := (processing_tasks s2)
                          (tid \<mapsto> t\<lparr>task_status := Completed, task_results := [r],
                                     completed_at := Some (isoformat (clock w (ticks s2)))\<rparr>)\<rparr>)"
proof -
  from VideoProcessor_init_frame [OF assms(1)] process_video_frame(1) [OF assms(2)]
  have "registry s2 = registry s" by simp
  from registry_tasks [OF this] assms(3) have "processing_tasks s2 tid = Some t" by simp
  from mark_completed_registered [OF this] show ?thesis
    by (simp add: process_video_task_def process_video_task_try_def assms(1,2) notify_def)
qed

lemma process_video_task_failed:
  assumes "VideoProcessor_init cfg w s = (Inr vp, s1)"
    and "process_video cfg w vp path s1 = (Inl e, vp2, s2)"
    and "processing_tasks s tid = Some t"
  shows "process_video_task cfg w tid path None s
         = (Inr (), s2\<lparr>ticks := Suc (ticks s2),
                        processing_tasks := (processing_tasks s2)
                          (tid \<mapsto> t\<lparr>task_status := Error, task_errors := [str_exn e],
                                     completed_at := Some (isoformat (clock w (ticks s2)))\<rparr>)\<rparr>)"
proof -
  from VideoProcessor_init_frame [OF assms(1)] process_video_frame(1) [OF assms(2)]
  have "registry s2 = registry s" by simp
  from registry_tasks [OF this] assms(3) have "processing_tasks s2 tid = Some t" by simp
  from mark_error_registered [OF this] show ?thesis
    by (simp add: process_video_task_def process_video_task_try_def assms(1,2) notify_def)
qed

lemma process_video_missing:
  "\<not> path_exists w s p \<Longrightarrow>
   fst (process_video cfg w vp p s) = Inl (FileNotFoundError (lit ''Video no encontrado: '' @ p))"
  by (simp add: process_video_def process_video_try_def path_exists_record_call Let_def
      split: prod.splits)

lemma run_append: "run cfg w (xs @ ys) s = run cfg w ys (run cfg w xs s)"
  by (induction xs arbitrary: s) simp_all

subsection \<open>Failure of a single video (main.py)\<close>

text \<open>
  Claim C3, as the source has it. In any run of the service, when the background task of
  a single-video submission starts and the construction of the processor or any stage of
  \<open>process_video\<close> raises an exception \<open>e\<close>, the worker \<open>process_video_task\<close> returns
  normally (no exception leaves it), and the record of the task is the one stored before
  with status \<open>error\<close>, the error list \<open>[str(e)]\<close> and the completion time set. The worker
  does not assign the result list: it is what the record held before.
\<close>

theorem single_video_failure:
  assumes "s = run cfg w evs (initial_state disk)"
    and "n < length (background_tasks s)"
    and "background_tasks s ! n = VideoTask task_id video_path callback_url"
    and "s0 = s\<lparr>background_tasks := take n (background_tasks s) @ drop (Suc n) (background_tasks s)\<rparr>"
    and "VideoProcessor_init cfg w s0 = (Inl e, s2)
         \<or> (\<exists>vp s1 vp2. VideoProcessor_init cfg w s0 = (Inr vp, s1)
               \<and> process_video cfg w vp video_path s1 = (Inl e, vp2, s2))"
  shows "\<exists>t s'. processing_tasks s task_id = Some t
           \<and> process_video_task cfg w task_id video_path callback_url s0 = (Inr (), s')
           \<and> step cfg w (RunBackground n) s = s'
           \<and> processing_tasks s' task_id
               = Some (t\<lparr>task_status := Error, task_errors := [str_exn e],
                          completed_at := Some (isoformat (clock w (ticks s2)))\<rparr>)"
proof -
  have "registry_ok s" unfolding assms(1) by (rule reachable_ok)
  from scheduled_registered [OF this assms(2)] assms(3)
  obtain t where t: "processing_tasks s task_id = Some t" by (auto simp: job_id_def)
  have "process_video_task_try cfg w task_id video_path callback_url s0 = (Inl e, s2)
        \<and> registry s2 = registry s0"
    using assms(5)
  proof
    assume i: "VideoProcessor_init cfg w s0 = (Inl e, s2)"
    from task_try_init_fails [OF i] VideoProcessor_init_frame [OF i] show ?thesis by blast
  next
    assume "\<exists>vp s1 vp2. VideoProcessor_init cfg w s0 = (Inr vp, s1)
               \<and> process_video cfg w vp video_path s1 = (Inl e, vp2, s2)"
    then obtain vp s1 vp2 where i: "VideoProcessor_init cfg w s0 = (Inr vp, s1)"
      and p: "process_video cfg w vp video_path s1 = (Inl e, vp2, s2)" by blast
    from VideoProcessor_init_frame [OF i] process_video_frame(1) [OF p]
    have "registry s2 = registry s0" by simp
    with task_try_video_fails [OF i p] show ?thesis by blast
  qed
  then have body: "process_video_task_try cfg w task_id video_path callback_url s0 = (Inl e, s2)"
    and reg: "registry s2 = registry s0" by blast+
  from registry_tasks [OF reg] t have t2: "processing_tasks s2 task_id = Some t"
    by (simp add: assms(4))
  from task_handler [OF body t2] obtain s' where
    r: "process_video_task cfg w task_id video_path callback_url s0 = (Inr (), s')"
    and f: "processing_tasks s' task_id
       = Some (t\<lparr>task_status := Error, task_errors := [str_exn e],
                  completed_at := Some (isoformat (clock w (ticks s2)))\<rparr>)"
    by blast
  have "step cfg w (RunBackground n) s = s'"
    using assms(2,3) r by (simp add: step_def run_job_def assms(4))
  with t r f show ?thesis by blast
qed

text \<open>
  A request for \<open>/videos/missing.mp4\<close> in the example world: the record is the fresh one
  when the worker starts, and the error record, with no result, after it.
\<close>

theorem single_video_failure_witness:
  "missing_submitted
     = run sample_config sample_world [Submit (ToProcessVideo (video_request missing_video))]
         (initial_state sample_disk)
   \<and> background_tasks missing_submitted
       = [VideoTask (lit ''video_20240517_103015_123000'') missing_video None]
   \<and> fst (process_video_task sample_config sample_world (lit ''video_20240517_103015_123000'')
          missing_video None (missing_submitted\<lparr>background_tasks := []\<rparr>)) = Inr ()
   \<and> processing_tasks (step sample_config sample_world (RunBackground 0) missing_submitted)
        (lit ''video_20240517_103015_123000'')
     = Some \<lparr>task_status = Error, task_results = [],
             task_errors = [lit ''Video no encontrado: /videos/missing.mp4''],
             started_at = lit ''2024-05-17T10:30:15.123001'',
             completed_at = Some (lit ''2024-05-17T10:30:15.123003'')\<rparr>"
proof -
  let ?tid = "lit ''video_20240517_103015_123000''"
  let ?s0 = "missing_submitted\<lparr>background_tasks := []\<rparr>"
  let ?pv = "process_video sample_config sample_world sample_processor missing_video ?s0"
  have run: "missing_submitted
     = run sample_config sample_world [Submit (ToProcessVideo (video_request missing_video))]
         (initial_state sample_disk)"
    by (simp add: missing_submitted_def step_def)
  have q: "background_tasks missing_submitted = [VideoTask ?tid missing_video None]"
    by (simp add: missing_submitted_eq)
  have n: "0 < length (background_tasks missing_submitted)"
    and j: "background_tasks missing_submitted ! 0 = VideoTask ?tid missing_video None"
    and s0: "?s0 = missing_submitted\<lparr>background_tasks :=
               take 0 (background_tasks missing_submitted)
               @ drop (Suc 0) (background_tasks missing_submitted)\<rparr>"
    by (simp_all add: q)
  have reg: "processing_tasks missing_submitted ?tid
      = Some (new_task (lit ''2024-05-17T10:30:15.123001''))"
    by (simp add: missing_submitted_eq)
  have pv: "?pv = (Inl (FileNotFoundError (lit ''Video no encontrado: /videos/missing.mp4'')),
      fst (snd ?pv), snd (snd ?pv))"
    by (simp add: prod_eq_iff missing_submitted_eq pipeline_defs sample_defs missing_video_def
        Let_def)
  have tk: "ticks (snd (snd ?pv)) = 3"
    by (simp add: missing_submitted_eq pipeline_defs sample_defs missing_video_def Let_def)
  from single_video_failure [OF run n j s0, of _ "snd (snd ?pv)"] init_sample [of ?s0] pv
  obtain t s' where
    a: "processing_tasks missing_submitted ?tid = Some t"
    and b: "process_video_task sample_config sample_world ?tid missing_video None ?s0 = (Inr (), s')"
    and c: "step sample_config sample_world (RunBackground 0) missing_submitted = s'"
    and d: "processing_tasks s' ?tid
          = Some (t\<lparr>task_status := Error,
               task_errors := [str_exn (FileNotFoundError
                                (lit ''Video no encontrado: /videos/missing.mp4''))],
               completed_at := Some (isoformat (clock sample_world (ticks (snd (snd ?pv)))))\<rparr>)"
    by blast
  from a reg have te: "t = new_task (lit ''2024-05-17T10:30:15.123001'')" by simp
  have iso: "isoformat (clock sample_world 3) = lit ''2024-05-17T10:30:15.123003''"
    by (simp add: isoformat_sample lit_def)
  from d have "processing_tasks s' ?tid
      = Some \<lparr>task_status = Error, task_results = [],
             task_errors = [lit ''Video no encontrado: /videos/missing.mp4''],
             started_at = lit ''2024-05-17T10:30:15.123001'',
             completed_at = Some (lit ''2024-05-17T10:30:15.123003'')\<rparr>"
    by (simp add: te tk iso str_exn_def new_task_def)
  with run q b c show ?thesis by simp
qed

lemma init_stalled:
  "VideoProcessor_init sample_config stalled_world s = (Inr sample_processor, s)"
  by (simp add: VideoProcessor_init_def AudioProcessor_init_def create_agent_def sample_config_def
      stalled_world_def sample_world_def sample_processor_def Let_def)

lemma collision_submitted:
  "run sample_config stalled_world (take 2 colliding_events) (initial_state sample_disk)
   = (initial_state sample_disk)
       \<lparr>ticks := 6,
        processing_tasks := [lit ''video_20240517_103015_123000''
                               \<mapsto> new_task (lit ''2024-05-17T10:30:15.123000'')],
        background_tasks := [VideoTask (lit ''video_20240517_103015_123000'') demo_video None,
                             VideoTask (lit ''video_20240517_103015_123000'') missing_video None]\<rparr>"
  by (simp add: colliding_events_def step_def submit_def post_process_video_def start_task_def
      accepted_def now_def video_request_def missing_video_def demo_video_def Let_def
      initial_state_def new_task_id_def id_prefix_def strftime_micro_def strftime_seconds_def
      isoformat_def stalled_world_def sample_world_def sample_now_def lit_def)

lemma collision_demo:
  "\<exists>r. fst (process_video sample_config stalled_world sample_processor demo_video
             collision_queued) = Inr r \<and> res_video_path r = demo_video"
  by (simp add: collision_queued_def pipeline_defs path_defs sample_defs stalled_world_def
      Let_def cleanup_temp_files.simps split: prod.splits)

lemma collision_files:
  "files (snd (snd (process_video sample_config stalled_world sample_processor demo_video
      collision_queued))) missing_video = None"
  by (simp add: collision_queued_def pipeline_defs path_defs sample_defs stalled_world_def
      missing_video_def Let_def cleanup_temp_files.simps split: prod.splits)

lemma collision_run:
  "\<exists>res c1 c2.
      res_video_path res = demo_video
      \<and> background_tasks (run sample_config stalled_world (take 3 colliding_events)
            (initial_state sample_disk))
          = [VideoTask (lit ''video_20240517_103015_123000'') missing_video None]
      \<and> processing_tasks (run sample_config stalled_world (take 3 colliding_events)
            (initial_state sample_disk)) (lit ''video_20240517_103015_123000'')
          = Some \<lparr>task_status = Completed, task_results = [res], task_errors = [],
                  started_at = lit ''2024-05-17T10:30:15.123000'', completed_at = Some c1\<rparr>
      \<and> processing_tasks (run sample_config stalled_world colliding_events
            (initial_state sample_disk)) (lit ''video_20240517_103015_123000'')
          = Some \<lparr>task_status = Error, task_results = [res],
                  task_errors = [lit ''Video no encontrado: /videos/missing.mp4''],
                  started_at = lit ''2024-05-17T10:30:15.123000'', completed_at = Some c2\<rparr>"
proof -
  let ?tid = "lit ''video_20240517_103015_123000''"
  let ?S2 = "run sample_config stalled_world (take 2 colliding_events) (initial_state sample_disk)"
  let ?X = "process_video sample_config stalled_world sample_processor demo_video collision_queued"
  let ?t = "(new_task (lit ''2024-05-17T10:30:15.123000''))
              \<lparr>task_status := Completed, task_results := [projr (fst ?X)],
               completed_at := Some (isoformat (clock stalled_world (ticks (snd (snd ?X)))))\<rparr>"
  let ?S3 = "(snd (snd ?X))\<lparr>ticks := Suc (ticks (snd (snd ?X))),
               processing_tasks := (processing_tasks (snd (snd ?X)))(?tid \<mapsto> ?t)\<rparr>"
  have e: "colliding_events = take 2 colliding_events @ [RunBackground 0, RunBackground 0]"
    "take 3 colliding_events = take 2 colliding_events @ [RunBackground 0]"
    by (simp_all add: colliding_events_def)
  from collision_demo obtain res where res: "fst ?X = Inr res" "res_video_path res = demo_video"
    by blast
  then have X: "?X = (Inr res, fst (snd ?X), snd (snd ?X))" by (simp add: prod_eq_iff)
  have regX: "registry (snd (snd ?X)) = registry collision_queued"
    by (rule process_video_frame(1) [OF X])
  have t0: "processing_tasks collision_queued ?tid
      = Some (new_task (lit ''2024-05-17T10:30:15.123000''))"
    by (simp add: collision_queued_def)
  have s1: "step sample_config stalled_world (RunBackground 0) ?S2 = ?S3"
    using process_video_task_completed [OF init_stalled X t0] res(1)
    by (simp add: collision_submitted step_def run_job_def collision_queued_def)
  have q3: "background_tasks ?S3 = [VideoTask ?tid missing_video None]"
    using registry_queue [OF regX] by (simp add: collision_queued_def)
  let ?S3' = "?S3\<lparr>background_tasks := []\<rparr>"
  let ?Y = "process_video sample_config stalled_world sample_processor missing_video ?S3'"
  have "\<not> path_exists stalled_world ?S3' missing_video"
    using collision_files
    by (simp add: path_exists_def stalled_world_def sample_world_def missing_video_def lit_def)
  from process_video_missing [OF this]
  have Y: "?Y = (Inl (FileNotFoundError (lit ''Video no encontrado: '' @ missing_video)),
      fst (snd ?Y), snd (snd ?Y))"
    by (simp add: prod_eq_iff)
  have t3: "processing_tasks ?S3' ?tid = Some ?t" by simp
  have s2: "processing_tasks (step sample_config stalled_world (RunBackground 0) ?S3) ?tid
      = Some (?t\<lparr>task_status := Error,
                 task_errors := [str_exn (FileNotFoundError
                                   (lit ''Video no encontrado: '' @ missing_video))],
                 completed_at := Some (isoformat (clock stalled_world (ticks (snd (snd ?Y)))))\<rparr>)"
    using process_video_task_failed [OF init_stalled Y t3] q3
    by (simp add: step_def run_job_def)
  have m: "lit ''Video no encontrado: '' @ missing_video
      = lit ''Video no encontrado: /videos/missing.mp4''"
    by (simp add: missing_video_def lit_def)
  have r3: "run sample_config stalled_world (take 3 colliding_events) (initial_state sample_disk)
      = ?S3"
    by (subst e(2)) (simp only: run_append run.simps s1)
  have r4: "run sample_config stalled_world colliding_events (initial_state sample_disk)
      = step sample_config stalled_world (RunBackground 0) ?S3"
    by (subst e(1)) (simp only: run_append run.simps s1)
  have "res_video_path res = demo_video" by (rule res(2))
  moreover have "background_tasks (run sample_config stalled_world (take 3 colliding_events)
      (initial_state sample_disk)) = [VideoTask ?tid missing_video None]"
    unfolding r3 by (rule q3)
  moreover have "processing_tasks (run sample_config stalled_world (take 3 colliding_events)
      (initial_state sample_disk)) ?tid
      = Some \<lparr>task_status = Completed, task_results = [res], task_errors = [],
              started_at = lit ''2024-05-17T10:30:15.123000'',
              completed_at = Some (isoformat (clock stalled_world (ticks (snd (snd ?X)))))\<rparr>"
    unfolding r3 using res(1) by (simp add: new_task_def)
  moreover have "processing_tasks (run sample_config stalled_world colliding_events
      (initial_state sample_disk)) ?tid
      = Some \<lparr>task_status = Error, task_results = [res],
              task_errors = [lit ''Video no encontrado: /videos/missing.mp4''],
              started_at = lit ''2024-05-17T10:30:15.123000'',
              completed_at = Some (isoformat (clock stalled_world (ticks (snd (snd ?Y)))))\<rparr>"
    unfolding r4 s2 using res(1) by (simp add: m str_exn_def new_task_def)
  ultimately show ?thesis by blast
qed

text \<open>
  Claim C3 as stated fails when two submissions were given the same identifier: the task
  of \<open>demo.mp4\<close> stores its result in the shared record, then the task of the missing
  video fails, and the record ends with status \<open>error\<close> and one result.
\<close>

theorem single_video_failure_counterexample:
  "background_tasks (run sample_config stalled_world (take 3 colliding_events)
       (initial_state sample_disk))
     = [VideoTask (lit ''video_20240517_103015_123000'') missing_video None]
   \<and> map_option (\<lambda>t. (task_status t, map res_video_path (task_results t), task_errors t))
        (processing_tasks
           (run sample_config stalled_world colliding_events (initial_state sample_disk))
           (lit ''video_20240517_103015_123000''))
     = Some (Error, [demo_video], [lit ''Video no encontrado: /videos/missing.mp4''])"
  using collision_run by auto

subsection \<open>Folder tasks (main.py)\<close>











subsection \<open>Polling a task (main.py)\<close>

lemma start_task_spares:
  assumes "start_task w k mk s = (tid', s1)" and "tid' \<noteq> tid"
  shows "processing_tasks (snd (accepted w tid' msg s1)) tid = processing_tasks s tid"
proof -
  obtain r s' where a: "accepted w tid' msg s1 = (r, s')" by (cases "accepted w tid' msg s1")
  from start_task_effect [OF assms(1)] accepted_effect [OF a] assms(2) a show ?thesis by simp
qed

lemma accepted_returned: "returned_id (accepted w tid msg s) = Some tid"
  by (simp add: returned_id_def accepted_def now_def split: prod.splits)

lemma submit_spares:
  assumes "returned_id (submit cfg w sub s) \<noteq> Some tid"
  shows "processing_tasks (snd (submit cfg w sub s)) tid = processing_tasks s tid"
proof (cases sub)
  case (ToProcessVideo request)
  with assms show ?thesis
    by (auto simp: submit_def post_process_video_def accepted_returned
        split: option.splits prod.splits if_splits intro: start_task_spares)
next
  case (ToProcessFolder request)
  with assms show ?thesis
    by (auto simp: submit_def post_process_folder_def accepted_returned Let_def
        split: option.splits prod.splits if_splits intro: start_task_spares)
next
  case (ToWebhook request)
  with assms show ?thesis
    by (auto simp: submit_def webhook_process_def accepted_returned Let_def
        split: option.splits prod.splits if_splits intro: start_task_spares)
qed

lemma worker_effect_spares:
  assumes "worker_effect tid' s0 out" and "tid' \<noteq> tid"
  shows "processing_tasks (snd out) tid = processing_tasks s0 tid"
  using assms by (auto simp: worker_effect_def split: option.splits)

lemma step_spares:
  assumes "spares cfg w tid ev s"
  shows "processing_tasks (step cfg w ev s) tid = processing_tasks s tid"
proof (cases ev)
  case (Submit sub)
  with assms show ?thesis by (simp add: step_def spares_def submit_spares)
next
  case (GetTask task_id)
  obtain r s' where g: "get_task_status w task_id s = (r, s')"
    by (cases "get_task_status w task_id s")
  from get_task_status_effect [OF g] g GetTask show ?thesis by (simp add: step_def)
next
  case (RunBackground n)
  show ?thesis
  proof (cases "n < length (background_tasks s)")
    case False
    with RunBackground show ?thesis by (simp add: step_def)
  next
    case True
    let ?s0 = "s\<lparr>background_tasks := take n (background_tasks s) @ drop (Suc n) (background_tasks s)\<rparr>"
    from assms RunBackground True have "job_id (background_tasks s ! n) \<noteq> tid"
      by (simp add: spares_def)
    from worker_effect_spares [OF run_job_effect this, of cfg w ?s0] RunBackground True
    show ?thesis by (simp add: step_def)
  qed
qed

lemma run_spared:
  "spared cfg w tid evs s \<Longrightarrow> processing_tasks (run cfg w evs s) tid = processing_tasks s tid"
  by (induction evs arbitrary: s) (simp_all add: step_spares)

lemma terminal_completed_at:
  assumes "registry_ok s" and "processing_tasks s tid = Some t"
  shows "(task_status t = Processing \<longrightarrow> completed_at t = None)
         \<and> (task_status t \<noteq> Processing \<longrightarrow> (\<exists>c. completed_at t = Some c \<and> c \<noteq> []))"
proof -
  from assms have "settled t" by (auto simp: registry_ok_def ran_def)
  then show ?thesis by (auto simp: settled_def split: option.splits)
qed

text \<open>
  Claim C5, as the source has it. In any run of the service, for a registered task whose
  status is terminal, \<open>get_task_status\<close> returns the stored status, results, errors and
  completion time and changes nothing, not even the clock; and after any further events
  that spare the task (polls of any task, submissions that are given another identifier,
  background tasks scheduled with another identifier) the record is the same and the
  poll returns the same result.
\<close>

theorem terminal_status_idempotent:
  assumes "s = run cfg w evs (initial_state disk)"
    and "processing_tasks s tid = Some t" and "task_status t \<noteq> Processing"
    and "spared cfg w tid evs' s"
  shows "\<exists>c. completed_at t = Some c
           \<and> processing_tasks (run cfg w evs' s) tid = Some t
           \<and> get_task_status w tid (run cfg w evs' s)
               = (Inr \<lparr>pr_task_id = tid, pr_status = task_status t,
                       pr_results = task_results t, pr_errors = task_errors t,
                       pr_completed_at = c\<rparr>, run cfg w evs' s)"
proof -
  have "registry_ok s" unfolding assms(1) by (rule reachable_ok)
  from terminal_completed_at [OF this assms(2)] assms(3)
  obtain c where c: "completed_at t = Some c" "c \<noteq> []" by blast
  from run_spared [OF assms(4)] assms(2)
  have t: "processing_tasks (run cfg w evs' s) tid = Some t" by simp
  with c show ?thesis by (simp add: get_task_status_def)
qed

lemma missing_run:
  "missing_submitted
     = run sample_config sample_world [Submit (ToProcessVideo (video_request missing_video))]
         (initial_state sample_disk)"
  by (simp add: missing_submitted_def step_def)

lemma missing_failed_eq:
  "missing_failed =
     (initial_state sample_disk)
       \<lparr>ticks := 4, calls := [PathExists missing_video],
        processing_tasks := [lit ''video_20240517_103015_123000''
           \<mapsto> \<lparr>task_status = Error, task_results = [],
                task_errors = [lit ''Video no encontrado: /videos/missing.mp4''],
                started_at = lit ''2024-05-17T10:30:15.123001'',
                completed_at = Some (lit ''2024-05-17T10:30:15.123003'')\<rparr>],
        background_tasks := []\<rparr>"
proof -
  have iso: "isoformat (clock sample_world 3) = lit ''2024-05-17T10:30:15.123003''"
    by (simp add: isoformat_sample lit_def)
  show ?thesis
    unfolding missing_failed_def
    by (simp add: missing_submitted_eq step_def run_job_def process_video_task_def
        process_video_task_try_def init_sample mark_error_def notify_def process_video_def
        process_video_try_def VideoProcessor_cleanup_temp_files_def record_call_def
        path_exists_def now_def Let_def iso str_exn_def new_task_def initial_state_def
        sample_disk_def missing_video_def sample_processor_def)
      (simp add: sample_world_def lit_def)
qed

lemma missing_failed_run:
  "missing_failed
     = run sample_config sample_world
         [Submit (ToProcessVideo (video_request missing_video)), RunBackground 0]
         (initial_state sample_disk)"
  by (simp add: missing_failed_def missing_run)

lemma sample_id:
  "new_task_id Video (clock sample_world k) = lit ''video_20240517_103015_'' @ zpad 6 (123000 + k)"
  by (simp add: new_task_id_def id_prefix_def strftime_micro_def strftime_seconds_def
      sample_world_def sample_now_def lit_def)

lemma missing_failed_poll:
  "get_task_status w (lit ''video_20240517_103015_123000'') missing_failed
   = (Inr \<lparr>pr_task_id = lit ''video_20240517_103015_123000'', pr_status = Error,
           pr_results = [],
           pr_errors = [lit ''Video no encontrado: /videos/missing.mp4''],
           pr_completed_at = lit ''2024-05-17T10:30:15.123003''\<rparr>, missing_failed)"
  by (simp add: get_task_status_def missing_failed_eq)

lemma missing_failed_spared:
  "spared sample_config sample_world (lit ''video_20240517_103015_123000'')
     [GetTask (lit ''video_20240517_103015_123000''),
      Submit (ToProcessVideo (video_request demo_video)),
      GetTask (lit ''video_20240517_103015_123000'')] missing_failed"
proof -
  have t: "ticks missing_failed = 4" by (simp add: missing_failed_eq)
  have d: "demo_video \<noteq> []" by (simp add: demo_video_def lit_def)
  have "new_task_id Video (clock sample_world 4) \<noteq> lit ''video_20240517_103015_123000''"
    by (simp add: sample_id lit_def)
  then show ?thesis
    by (simp add: spares_def step_def missing_failed_poll returned_id_video [OF d] t)
qed

text \<open>
  The failed task of the missing video in the example world: polled at once, and polled
  after a poll and the submission of another video.
\<close>

theorem terminal_status_idempotent_witness:
  "map_option task_status
     (processing_tasks missing_failed (lit ''video_20240517_103015_123000'')) = Some Error
   \<and> fst (get_task_status sample_world (lit ''video_20240517_103015_123000'') missing_failed)
       = Inr \<lparr>pr_task_id = lit ''video_20240517_103015_123000'', pr_status = Error,
               pr_results = [],
               pr_errors = [lit ''Video no encontrado: /videos/missing.mp4''],
               pr_completed_at = lit ''2024-05-17T10:30:15.123003''\<rparr>
   \<and> fst (get_task_status sample_world (lit ''video_20240517_103015_123000'')
          (run sample_config sample_world
             [GetTask (lit ''video_20240517_103015_123000''),
              Submit (ToProcessVideo (video_request demo_video)),
              GetTask (lit ''video_20240517_103015_123000'')] missing_failed))
       = Inr \<lparr>pr_task_id = lit ''video_20240517_103015_123000'', pr_status = Error,
               pr_results = [],
               pr_errors = [lit ''Video no encontrado: /videos/missing.mp4''],
               pr_completed_at = lit ''2024-05-17T10:30:15.123003''\<rparr>"
proof -
  let ?tid = "lit ''video_20240517_103015_123000''"
  let ?t = "\<lparr>task_status = Error, task_results = [],
             task_errors = [lit ''Video no encontrado: /videos/missing.mp4''],
             started_at = lit ''2024-05-17T10:30:15.123001'',
             completed_at = Some (lit ''2024-05-17T10:30:15.123003'')\<rparr>"
  have reg: "processing_tasks missing_failed ?tid = Some ?t"
    by (simp add: missing_failed_eq)
  have st: "task_status ?t \<noteq> Processing" by simp
  have e: "spared sample_config sample_world ?tid [] missing_failed" by simp
  from terminal_status_idempotent [OF missing_failed_run reg st e]
  have a: "fst (get_task_status sample_world ?tid missing_failed)
       = Inr \<lparr>pr_task_id = ?tid, pr_status = Error, pr_results = [],
               pr_errors = [lit ''Video no encontrado: /videos/missing.mp4''],
               pr_completed_at = lit ''2024-05-17T10:30:15.123003''\<rparr>"
    by auto
  from terminal_status_idempotent [OF missing_failed_run reg st missing_failed_spared]
  have b: "fst (get_task_status sample_world ?tid
          (run sample_config sample_world
             [GetTask ?tid, Submit (ToProcessVideo (video_request demo_video)), GetTask ?tid]
             missing_failed))
       = Inr \<lparr>pr_task_id = ?tid, pr_status = Error, pr_results = [],
               pr_errors = [lit ''Video no encontrado: /videos/missing.mp4''],
               pr_completed_at = lit ''2024-05-17T10:30:15.123003''\<rparr>"
    by auto
  from reg a b show ?thesis by simp
qed

text \<open>
  Claim C5 as stated fails when two submissions were given the same identifier: the
  shared record is completed by the first background task and polled as completed, then
  modified by the second, and polled as failed.
\<close>

theorem terminal_record_mutated_counterexample:
  "colliding_events = take 3 colliding_events @ [RunBackground 0]
   \<and> map_sum id pr_status
        (fst (get_task_status stalled_world (lit ''video_20240517_103015_123000'')
           (run sample_config stalled_world (take 3 colliding_events)
              (initial_state sample_disk)))) = Inr Completed
   \<and> map_sum id pr_status
        (fst (get_task_status stalled_world (lit ''video_20240517_103015_123000'')
           (run sample_config stalled_world colliding_events (initial_state sample_disk))))
       = Inr Error"
proof -
  have "colliding_events = take 3 colliding_events @ [RunBackground 0]"
    by (simp add: colliding_events_def)
  moreover from collision_run
  have "map_sum id pr_status
        (fst (get_task_status stalled_world (lit ''video_20240517_103015_123000'')
           (run sample_config stalled_world (take 3 colliding_events)
              (initial_state sample_disk)))) = Inr Completed"
    "map_sum id pr_status
        (fst (get_task_status stalled_world (lit ''video_20240517_103015_123000'')
           (run sample_config stalled_world colliding_events (initial_state sample_disk))))
       = Inr Error"
    by (auto simp: get_task_status_def now_def split: prod.splits)
  ultimately show ?thesis by blast
qed

text \<open>
  Claim C10. In any run of the service, for a registered task whose status is
  \<open>processing\<close>, \<open>get_task_status\<close> reads the clock and returns that reading as
  \<open>completed_at\<close>, a non-empty string; it changes nothing but the clock, so the next
  poll returns the next reading, with the same status, results and errors.
\<close>

theorem processing_status_reads_clock:
  assumes "s = run cfg w evs (initial_state disk)"
    and "processing_tasks s tid = Some t" and "task_status t = Processing"
  shows "get_task_status w tid s
           = (Inr \<lparr>pr_task_id = tid, pr_status = Processing, pr_results = task_results t,
                   pr_errors = task_errors t,
                   pr_completed_at = isoformat (clock w (ticks s))\<rparr>,
              s\<lparr>ticks := Suc (ticks s)\<rparr>)
         \<and> get_task_status w tid (s\<lparr>ticks := Suc (ticks s)\<rparr>)
           = (Inr \<lparr>pr_task_id = tid, pr_status = Processing, pr_results = task_results t,
                   pr_errors = task_errors t,
                   pr_completed_at = isoformat (clock w (Suc (ticks s)))\<rparr>,
              s\<lparr>ticks := Suc (Suc (ticks s))\<rparr>)
         \<and> isoformat (clock w (ticks s)) \<noteq> [] \<and> isoformat (clock w (Suc (ticks s))) \<noteq> []"
proof -
  have "registry_ok s" unfolding assms(1) by (rule reachable_ok)
  from terminal_completed_at [OF this assms(2)] assms(3)
  have "completed_at t = None" by simp
  with assms(2,3) show ?thesis
    by (simp add: get_task_status_def now_def isoformat_nonempty)
qed

text \<open>
  Two polls of the task of the example world before its background task has run: the
  completion times differ by a microsecond, and the registry is as it was.
\<close>

theorem processing_status_reads_clock_witness:
  "map_option task_status
     (processing_tasks missing_submitted (lit ''video_20240517_103015_123000'')) = Some Processing
   \<and> map_sum id pr_completed_at
        (fst (get_task_status sample_world (lit ''video_20240517_103015_123000'')
           missing_submitted)) = Inr (lit ''2024-05-17T10:30:15.123003'')
   \<and> map_sum id pr_completed_at
        (fst (get_task_status sample_world (lit ''video_20240517_103015_123000'')
           (snd (get_task_status sample_world (lit ''video_20240517_103015_123000'')
              missing_submitted)))) = Inr (lit ''2024-05-17T10:30:15.123004'')
   \<and> processing_tasks
        (snd (get_task_status sample_world (lit ''video_20240517_103015_123000'')
           missing_submitted)) = processing_tasks missing_submitted
   \<and> lit ''2024-05-17T10:30:15.123003'' \<noteq> lit ''2024-05-17T10:30:15.123004''"
proof -
  let ?tid = "lit ''video_20240517_103015_123000''"
  have reg: "processing_tasks missing_submitted ?tid
      = Some (new_task (lit ''2024-05-17T10:30:15.123001''))"
    by (simp add: missing_submitted_eq)
  have st: "task_status (new_task (lit ''2024-05-17T10:30:15.123001'')) = Processing"
    by (simp add: new_task_def)
  have tk: "ticks missing_submitted = 3" by (simp add: missing_submitted_eq)
  have iso: "isoformat (clock sample_world 3) = lit ''2024-05-17T10:30:15.123003''"
    "isoformat (clock sample_world 4) = lit ''2024-05-17T10:30:15.123004''"
    by (simp_all add: isoformat_sample lit_def)
  have ne: "lit ''2024-05-17T10:30:15.123003'' \<noteq> lit ''2024-05-17T10:30:15.123004''"
    by (simp add: lit_def)
  from processing_status_reads_clock [OF missing_run reg st] reg ne
  show ?thesis by (simp add: tk iso st)
qed

end
